theory Spec2Isabelle
  imports Complex_Main "HOL-Library.Word" "HOL-Library.Sublist"
begin

section \<open>JavaScript strings, numbers and errors\<close>

text \<open>
  A JavaScript string is a sequence of UTF-16 code units, and \<open>length\<close>, indexing,
  \<open>charCodeAt\<close>, \<open>substring\<close> and regular expressions without the \<open>u\<close> flag all
  count code units. A string is therefore a list of 16-bit words; \<open>str\<close> embeds an
  ASCII literal of the source.
\<close>

type_synonym jschar = "16 word"
type_synonym jsstring = "jschar list"

definition str :: "string \<Rightarrow> jsstring" where
  "str s = map (\<lambda>c. of_nat (of_char c)) s"

text \<open>\<open>throw new Error(message)\<close>: an error value carrying its message.\<close>

datatype error = Error jsstring

fun message :: "error \<Rightarrow> jsstring" where
  "message (Error m) = m"

text \<open>
  The numbers the parser reports are array lengths, except \<open>Math.max()\<close> of no
  arguments, which is \<open>-Infinity\<close>. (The array is spread into the arguments of
  \<open>Math.max\<close>; how many arguments an engine accepts is not part of the model.)
\<close>

datatype jsnumber = NegInfinity | Number int

fun mathMax :: "nat list \<Rightarrow> jsnumber" where
  "mathMax [] = NegInfinity"
| "mathMax (x # xs) = Number (int (fold max xs x))"

text \<open>Decimal rendering of a non-negative integer, as template literals do.\<close>

definition digitChar :: "nat \<Rightarrow> jschar" where
  "digitChar d = of_nat (48 + d)"

function showNat :: "nat \<Rightarrow> jsstring" where
  "showNat n = (if n < 10 then [digitChar n]
                else showNat (n div 10) @ [digitChar (n mod 10)])"
  by pat_completeness auto
termination
  by (relation "measure id") auto

declare showNat.simps [simp del]

definition showInt :: "int \<Rightarrow> jsstring" where
  "showInt i = (if i < 0 then str ''-'' @ showNat (nat (- i)) else showNat (nat i))"

text \<open>
  \<open>String.prototype.trim\<close> and the class \<open>\s\<close> of regular expressions use the same
  set: WhiteSpace and LineTerminator of ECMAScript.
\<close>

definition isWhiteSpace :: "jschar \<Rightarrow> bool" where
  "isWhiteSpace c =
     (c = 0x09 \<or> c = 0x0A \<or> c = 0x0B \<or> c = 0x0C \<or> c = 0x0D \<or> c = 0x20 \<or> c = 0xA0
      \<or> c = 0x1680 \<or> (0x2000 \<le> c \<and> c \<le> 0x200A) \<or> c = 0x2028 \<or> c = 0x2029
      \<or> c = 0x202F \<or> c = 0x205F \<or> c = 0x3000 \<or> c = 0xFEFF)"

definition trim :: "jsstring \<Rightarrow> jsstring" where
  "trim s = rev (dropWhile isWhiteSpace (rev (dropWhile isWhiteSpace s)))"

section \<open>CSVParser (js/csv-parser.js)\<close>

text \<open>The two limits set by the constructor.\<close>

definition maxFileSize :: nat where
  "maxFileSize = 10 * 1024 * 1024"

definition maxRows :: nat where
  "maxRows = 100000"

text \<open>
  The size in bytes of a text stored as a UTF-8 file: one to three bytes for a code
  unit, a surrogate pair (two code units) taking four.
\<close>

definition utf8Bytes :: "jschar \<Rightarrow> nat" where
  "utf8Bytes c = (if c < 0x80 then 1
                  else if c < 0x800 then 2
                  else if 0xD800 \<le> c \<and> c \<le> 0xDFFF then 2
                  else 3)"

definition byteSize :: "jsstring \<Rightarrow> nat" where
  "byteSize s = sum_list (map utf8Bytes s)"

subsection \<open>removeBOM\<close>

definition removeBOM :: "jsstring \<Rightarrow> jsstring" where
  "removeBOM text =
     (if take 1 text = [0xFEFF] then drop 1 text
      else if take 3 text = [0xEF, 0xBB, 0xBF] then drop 3 text
      else text)"

subsection \<open>Splitting into lines: \<open>split(/\r?\n/)\<close>\<close>

text \<open>
  The separator is a line feed, or a carriage return directly followed by a line
  feed; a lone carriage return stays in its line. \<open>cur\<close> is the line being read.
\<close>

fun splitFrom :: "jsstring \<Rightarrow> jsstring \<Rightarrow> jsstring list" where
  "splitFrom cur [] = [cur]"
| "splitFrom cur [c] = (if c = 0x0A then [cur, []] else [cur @ [c]])"
| "splitFrom cur (c # d # cs) =
     (if c = 0x0A then cur # splitFrom [] (d # cs)
      else if c = 0x0D \<and> d = 0x0A then cur # splitFrom [] cs
      else splitFrom (cur @ [c]) (d # cs))"

declare splitFrom.simps [simp del]

definition splitLines :: "jsstring \<Rightarrow> jsstring list" where
  "splitLines text = splitFrom [] text"

subsection \<open>parseCSVLine\<close>

text \<open>
  The \<open>for\<close> loop over the characters of the line, as a recursion over the
  characters not yet read, with the loop's variables \<open>result\<close>, \<open>current\<close>,
  \<open>inQuotes\<close> and \<open>quoteChar\<close>. The delimiter is a string: \<open>char === delimiter\<close>
  holds when the delimiter is that one character. An escaped quote skips the next
  character as well (\<open>i++\<close>).
\<close>

definition field :: "bool \<Rightarrow> jsstring \<Rightarrow> jsstring" where
  "field trimValues current = (if trimValues then trim current else current)"

fun lineLoop :: "jsstring \<Rightarrow> bool \<Rightarrow> jsstring \<Rightarrow> jsstring list \<Rightarrow> jsstring \<Rightarrow> bool \<Rightarrow> jschar
                 \<Rightarrow> jsstring list" where
  "lineLoop delim tv [] result current inQuotes quoteChar = result @ [field tv current]"
| "lineLoop delim tv (c # cs) result current inQuotes quoteChar =
     (if c = 0x22 \<or> c = 0x27 then
        (if \<not> inQuotes then lineLoop delim tv cs result current True c
         else if c = quoteChar then
           (case cs of
              [] \<Rightarrow> lineLoop delim tv cs result current False quoteChar
            | nextChar # cs' \<Rightarrow>
                if nextChar = quoteChar
                then lineLoop delim tv cs' result (current @ [c]) inQuotes quoteChar
                else lineLoop delim tv cs result current False quoteChar)
         else lineLoop delim tv cs result (current @ [c]) inQuotes quoteChar)
      else if [c] = delim \<and> \<not> inQuotes then
        lineLoop delim tv cs (result @ [field tv current]) [] inQuotes quoteChar
      else lineLoop delim tv cs result (current @ [c]) inQuotes quoteChar)"

declare lineLoop.simps [simp del]

definition parseCSVLine :: "jsstring \<Rightarrow> jsstring \<Rightarrow> bool \<Rightarrow> jsstring list" where
  "parseCSVLine line delim trimValues = lineLoop delim trimValues line [] [] False 0x22"

subsection \<open>countDelimiterOccurrences and detectDelimiter\<close>

text \<open>Here \<open>quoteChar\<close> starts as the empty string.\<close>

fun countLoop :: "jsstring \<Rightarrow> jsstring \<Rightarrow> nat \<Rightarrow> bool \<Rightarrow> jsstring \<Rightarrow> nat" where
  "countLoop delim [] count inQuotes quoteChar = count"
| "countLoop delim (c # cs) count inQuotes quoteChar =
     (if (c = 0x22 \<or> c = 0x27) \<and> \<not> inQuotes then countLoop delim cs count True [c]
      else if [c] = quoteChar \<and> inQuotes then
        (case cs of
           [] \<Rightarrow> countLoop delim cs count False quoteChar
         | nextChar # cs' \<Rightarrow>
             if [nextChar] = quoteChar then countLoop delim cs' count inQuotes quoteChar
             else countLoop delim cs count False quoteChar)
      else if [c] = delim \<and> \<not> inQuotes then countLoop delim cs (count + 1) inQuotes quoteChar
      else countLoop delim cs count inQuotes quoteChar)"

declare countLoop.simps [simp del]

definition countDelimiterOccurrences :: "jsstring \<Rightarrow> jsstring \<Rightarrow> nat" where
  "countDelimiterOccurrences line delim = countLoop delim line 0 False []"

definition delimiters :: "jsstring list" where
  "delimiters = [[0x2C], [0x3B], [0x09], [0x7C]]"

text \<open>The loop's state is the pair \<open>(maxCount, bestDelimiter)\<close>.\<close>

definition detectStep :: "jsstring \<Rightarrow> jsstring \<Rightarrow> nat \<times> jsstring \<Rightarrow> nat \<times> jsstring" where
  "detectStep line delim st =
     (let count = countDelimiterOccurrences line delim
      in if count > fst st then (count, delim) else st)"

definition detectDelimiter :: "jsstring \<Rightarrow> jsstring" where
  "detectDelimiter line = snd (fold (detectStep line) delimiters (0, [0x2C]))"

subsection \<open>parseCSVText\<close>

record parseOptions =
  optDelimiter :: "jsstring option"
  optHasHeader :: bool
  optEncoding :: jsstring
  skipEmptyLines :: bool
  trimValues :: bool

definition defaultOptions :: parseOptions where
  "defaultOptions =
     \<lparr>optDelimiter = None, optHasHeader = True, optEncoding = str ''UTF-8'',
      skipEmptyLines = True, trimValues = True\<rparr>"

record csvMetadata =
  originalLineCount :: nat
  processedRows :: nat
  skippedRows :: int
  hasHeader :: bool
  maxColumnCount :: jsnumber

record csvData =
  headers :: "jsstring list"
  rows :: "jsstring list list"
  totalRows :: nat
  columns :: nat
  delimiter :: jsstring
  encoding :: jsstring
  metadata :: csvMetadata

text \<open>\<open>while (rowData.length < headers.length) rowData.push('')\<close>\<close>

definition padRow :: "nat \<Rightarrow> jsstring list \<Rightarrow> jsstring list" where
  "padRow headerCount rowData = rowData @ replicate (headerCount - length rowData) []"

text \<open>
  The loop over the data lines; \<open>acc\<close> is the array \<open>rows\<close> built so far. The loop
  stops at \<open>maxRows\<close> rows. The inner \<open>try\<close> guards \<open>parseCSVLine\<close>, which never
  throws on a string, so its \<open>catch\<close> has no branch here.
\<close>

fun rowLoop :: "jsstring \<Rightarrow> bool \<Rightarrow> bool \<Rightarrow> nat \<Rightarrow> jsstring list \<Rightarrow> jsstring list list
                \<Rightarrow> jsstring list list" where
  "rowLoop delim tv skipEmpty headerCount [] acc = acc"
| "rowLoop delim tv skipEmpty headerCount (line # rest) acc =
     (if length acc \<ge> maxRows then acc
      else
        (let rowData = parseCSVLine line delim tv
         in if skipEmpty \<and> list_all (\<lambda>cell. cell = []) rowData
            then rowLoop delim tv skipEmpty headerCount rest acc
            else rowLoop delim tv skipEmpty headerCount rest (acc @ [padRow headerCount rowData])))"

declare rowLoop.simps [simp del]

definition columnNames :: "nat \<Rightarrow> jsstring list" where
  "columnNames n = map (\<lambda>index. str ''Column_'' @ showNat (index + 1)) [0..<n]"

text \<open>
  The array \<open>lines\<close>: the text without its byte-order mark, split, and without its
  blank lines when \<open>skipEmptyLines\<close> is set.
\<close>

definition inputLines :: "jsstring \<Rightarrow> parseOptions \<Rightarrow> jsstring list" where
  "inputLines csvText options =
     (let lines = splitLines (removeBOM csvText)
      in if skipEmptyLines options then filter (\<lambda>line. trim line \<noteq> []) lines else lines)"

text \<open>
  The body of the outer \<open>try\<close>: every \<open>throw\<close> is an \<open>Inl\<close>. The delimiter option
  is used when it is truthy (a non-empty string) and detected from the first line
  otherwise.
\<close>

definition parseBody :: "jsstring \<Rightarrow> parseOptions \<Rightarrow> error + csvData" where
  "parseBody csvText options =
     (if csvText = [] then Inl (Error (str ''Invalid CSV text input''))
      else
        (let lines = inputLines csvText options
         in case lines of
              [] \<Rightarrow> Inl (Error (str ''CSV file is empty''))
            | first # rest \<Rightarrow>
                (let detectedDelimiter =
                       (case optDelimiter options of
                          None \<Rightarrow> detectDelimiter first
                        | Some d \<Rightarrow> if d = [] then detectDelimiter first else d);
                     firstRow = parseCSVLine first detectedDelimiter (trimValues options);
                     hdrs = (if optHasHeader options then firstRow
                             else columnNames (length firstRow));
                     dataLines = (if optHasHeader options then rest else lines)
                 in if hdrs = [] then
                      Inl (Error (if optHasHeader options
                                  then str ''No headers found in CSV file''
                                  else str ''No valid columns found in CSV file''))
                    else
                      (let rs = rowLoop detectedDelimiter (trimValues options)
                                  (skipEmptyLines options) (length hdrs) dataLines []
                       in Inr \<lparr>headers = hdrs, rows = rs, totalRows = length rs,
                               columns = length hdrs, delimiter = detectedDelimiter,
                               encoding = optEncoding options,
                               metadata =
                                 \<lparr>originalLineCount = length lines,
                                  processedRows = length rs,
                                  skippedRows = int (length lines) - int (length rs)
                                                - (if optHasHeader options then 1 else 0),
                                  hasHeader = optHasHeader options,
                                  maxColumnCount = mathMax (map length rs)\<rparr>\<rparr>))))"

text \<open>The outer \<open>catch\<close> rethrows with a prefixed message.\<close>

definition parseCSVText :: "jsstring \<Rightarrow> parseOptions \<Rightarrow> error + csvData" where
  "parseCSVText csvText options =
     (case parseBody csvText options of
        Inl e \<Rightarrow> Inl (Error (str ''CSV parsing failed: '' @ message e))
      | Inr t \<Rightarrow> Inr t)"

section \<open>JavaScript values\<close>

text \<open>
  The values that cells, options and clause operands hold. \<open>JNum\<close> is a number
  whose value is an integer from \<open>-2^53\<close> to \<open>2^53 - 1\<close>, read with \<open>sint\<close>: in that
  range every integer is a number of its own and \<open>String\<close> prints its digits.
  Fractions and larger numbers, which \<open>String\<close> rounds to their shortest digits,
  are not values of this type. \<open>JObject\<close> is a function or another object that is
  not an array, given by the text that \<open>String\<close> prints for it. The parser itself
  only ever produces strings.
\<close>

datatype jsval =
  JNull | JUndefined | JBool bool | JNum "54 word" | JStr jsstring | JArr "jsval list"
  | JObject jsstring

text \<open>\<open>Array.prototype.join\<close> on strings.\<close>

fun join :: "jsstring \<Rightarrow> jsstring list \<Rightarrow> jsstring" where
  "join sep [] = []"
| "join sep [x] = x"
| "join sep (x # y # ys) = x @ sep @ join sep (y # ys)"

text \<open>
  \<open>String(value)\<close>. An array prints its elements separated by commas, \<open>null\<close> and
  \<open>undefined\<close> elements printing as nothing.
\<close>

fun toStr :: "jsval \<Rightarrow> jsstring" where
  "toStr JNull = str ''null''"
| "toStr JUndefined = str ''undefined''"
| "toStr (JBool b) = (if b then str ''true'' else str ''false'')"
| "toStr (JNum i) = showInt (sint i)"
| "toStr (JStr s) = s"
| "toStr (JObject s) = s"
| "toStr (JArr vs) =
     join (str '','')
       (map (\<lambda>v. case v of JNull \<Rightarrow> [] | JUndefined \<Rightarrow> [] | _ \<Rightarrow> toStr v) vs)"

text \<open>Truthiness, as \<open>value ? a : b\<close> tests it.\<close>

fun truthy :: "jsval \<Rightarrow> bool" where
  "truthy JNull = False"
| "truthy JUndefined = False"
| "truthy (JBool b) = b"
| "truthy (JNum i) = (i \<noteq> 0)"
| "truthy (JStr s) = (s \<noteq> [])"
| "truthy (JArr vs) = True"
| "truthy (JObject s) = True"

text \<open>
  Case conversion, as far as ASCII letters come out of it. \<open>toLowerCase\<close> and
  \<open>toUpperCase\<close> of JavaScript also map a letter outside ASCII to another letter
  outside ASCII, which is left as it is here; every use below compares the result
  with a word of ASCII letters, and such a comparison has the outcome it has in
  JavaScript.

  The code units that \<open>toLowerCase\<close> maps to an ASCII letter are the capitals
  \<open>A\<close> to \<open>Z\<close> and the Kelvin sign U+212A, which becomes \<open>k\<close>; U+0130 becomes \<open>i\<close>
  followed by U+0307.
\<close>

definition lowerCaseUnit :: "jschar \<Rightarrow> jsstring" where
  "lowerCaseUnit c =
     (if 0x41 \<le> c \<and> c \<le> 0x5A then [c + 0x20]
      else if c = 0x212A then [0x6B]
      else if c = 0x130 then [0x69, 0x307]
      else [c])"

definition toLowerCase :: "jsstring \<Rightarrow> jsstring" where
  "toLowerCase s = concat (map lowerCaseUnit s)"

text \<open>
  The code units that \<open>toUpperCase\<close> maps to ASCII letters are the small letters
  \<open>a\<close> to \<open>z\<close>, the dotless i U+0131 (to \<open>I\<close>), the long s U+017F (to \<open>S\<close>), the
  sharp s U+00DF (to \<open>SS\<close>) and the ligatures U+FB00 to U+FB06 (to \<open>FF\<close>, \<open>FI\<close>,
  \<open>FL\<close>, \<open>FFI\<close>, \<open>FFL\<close>, \<open>ST\<close> and \<open>ST\<close>).
\<close>

definition upperCaseUnit :: "jschar \<Rightarrow> jsstring" where
  "upperCaseUnit c =
     (if 0x61 \<le> c \<and> c \<le> 0x7A then [c - 0x20]
      else if c = 0x131 then str ''I''
      else if c = 0x17F then str ''S''
      else if c = 0xDF then str ''SS''
      else if c = 0xFB00 then str ''FF''
      else if c = 0xFB01 then str ''FI''
      else if c = 0xFB02 then str ''FL''
      else if c = 0xFB03 then str ''FFI''
      else if c = 0xFB04 then str ''FFL''
      else if c = 0xFB05 \<or> c = 0xFB06 then str ''ST''
      else [c])"

definition toUpperCase :: "jsstring \<Rightarrow> jsstring" where
  "toUpperCase s = concat (map upperCaseUnit s)"

text \<open>\<open>s.replace(/'/g, "''")\<close>: every single quote is doubled.\<close>

definition doubleQuotes :: "jsstring \<Rightarrow> jsstring" where
  "doubleQuotes s = concat (map (\<lambda>c. if c = 0x27 then [0x27, 0x27] else [c]) s)"

text \<open>\<open>s.endsWith(suffix)\<close>\<close>

definition endsWith :: "jsstring \<Rightarrow> jsstring \<Rightarrow> bool" where
  "endsWith s suf = (length suf \<le> length s \<and> drop (length s - length suf) s = suf)"

text \<open>\<open>s.replace(pat, '')\<close> with a string pattern: the first occurrence is removed.\<close>

fun removeFirst :: "jsstring \<Rightarrow> jsstring \<Rightarrow> jsstring" where
  "removeFirst pat [] = []"
| "removeFirst pat (c # cs) =
     (if take (length pat) (c # cs) = pat then drop (length pat) (c # cs)
      else c # removeFirst pat cs)"

text \<open>
  \<open>xs.slice(start, stop)\<close>: a negative index counts from the end, and both are
  clamped to the array.
\<close>

definition sliceArray :: "'a list \<Rightarrow> int \<Rightarrow> int \<Rightarrow> 'a list" where
  "sliceArray xs start stop =
     (let len = int (length xs);
          k = (if start < 0 then max (len + start) 0 else min start len);
          final = (if stop < 0 then max (len + stop) 0 else min stop len)
      in take (nat (final - k)) (drop (nat k) xs))"

subsection \<open>Strings as numbers\<close>

definition isDigit :: "jschar \<Rightarrow> bool" where
  "isDigit c = (0x30 \<le> c \<and> c \<le> 0x39)"

definition isHexDigit :: "jschar \<Rightarrow> bool" where
  "isHexDigit c = (isDigit c \<or> (0x41 \<le> c \<and> c \<le> 0x46) \<or> (0x61 \<le> c \<and> c \<le> 0x66))"

definition digitValue :: "jschar \<Rightarrow> int" where
  "digitValue c = (if isDigit c then uint c - 0x30
                   else if 0x41 \<le> c \<and> c \<le> 0x46 then uint c - 0x41 + 10
                   else uint c - 0x61 + 10)"

definition stripSign :: "jsstring \<Rightarrow> jsstring" where
  "stripSign s = (case s of [] \<Rightarrow> [] | c # cs \<Rightarrow> if c = 0x2B \<or> c = 0x2D then cs else s)"

definition digitsValue :: "int \<Rightarrow> jsstring \<Rightarrow> int" where
  "digitsValue radix ds = fold (\<lambda>c acc. acc * radix + digitValue c) ds 0"

text \<open>
  \<open>parseInt(value)\<close> with no radix; \<open>None\<close> is \<open>NaN\<close>. The value is turned into a
  string; leading white space and a sign are skipped; a prefix \<open>0x\<close> selects radix
  16; the longest run of digits is read, and there must be one. The integer that the
  digits denote is kept exactly; the source has the number nearest to it, which is
  another integer only beyond \<open>2^53\<close>, where either of them, as a batch size, is
  larger than the length of any array.
\<close>

definition parseInt :: "jsval \<Rightarrow> int option" where
  "parseInt v =
     (let s = dropWhile isWhiteSpace (toStr v);
          sign = (if take 1 s = [0x2D] then - 1 else 1 :: int);
          s1 = stripSign s;
          hex = (take 2 s1 = [0x30, 0x78] \<or> take 2 s1 = [0x30, 0x58]);
          ds = (if hex then takeWhile isHexDigit (drop 2 s1) else takeWhile isDigit s1)
      in if ds = [] then None else Some (sign * digitsValue (if hex then 16 else 10) ds))"

text \<open>
  \<open>isNaN(value)\<close> for a string: the string is not a numeric literal. A numeric
  literal, between optional white space, is empty, or a decimal literal with an
  optional sign, fraction and exponent, or \<open>Infinity\<close> with an optional sign, or an
  unsigned literal in radix 16, 8 or 2.
\<close>

definition exponentPart :: "jsstring \<Rightarrow> bool" where
  "exponentPart r =
     (case r of
        [] \<Rightarrow> True
      | e # r' \<Rightarrow> (e = 0x65 \<or> e = 0x45) \<and> stripSign r' \<noteq> [] \<and> list_all isDigit (stripSign r'))"

definition unsignedDecimal :: "jsstring \<Rightarrow> bool" where
  "unsignedDecimal u =
     (let a = takeWhile isDigit u; r1 = dropWhile isDigit u
      in case r1 of
           [] \<Rightarrow> a \<noteq> []
         | c # r2 \<Rightarrow>
             if c = 0x2E
             then (a \<noteq> [] \<or> takeWhile isDigit r2 \<noteq> []) \<and> exponentPart (dropWhile isDigit r2)
             else a \<noteq> [] \<and> exponentPart r1)"

definition radixLiteral :: "jsstring \<Rightarrow> bool" where
  "radixLiteral t =
     (case t of
        z # x # ds \<Rightarrow>
          z = 0x30 \<and> ds \<noteq> [] \<and>
          ((x = 0x78 \<or> x = 0x58) \<and> list_all isHexDigit ds
           \<or> (x = 0x6F \<or> x = 0x4F) \<and> list_all (\<lambda>c. 0x30 \<le> c \<and> c \<le> 0x37) ds
           \<or> (x = 0x62 \<or> x = 0x42) \<and> list_all (\<lambda>c. c = 0x30 \<or> c = 0x31) ds)
      | _ \<Rightarrow> False)"

definition numericString :: "jsstring \<Rightarrow> bool" where
  "numericString s =
     (let t = trim s
      in t = [] \<or> radixLiteral t \<or> stripSign t = str ''Infinity'' \<or> unsignedDecimal (stripSign t))"

text \<open>\<open>isNaN(value)\<close>: the value converted to a number is \<open>NaN\<close>.\<close>

fun isNaN :: "jsval \<Rightarrow> bool" where
  "isNaN JNull = False"
| "isNaN JUndefined = True"
| "isNaN (JBool b) = False"
| "isNaN (JNum i) = False"
| "isNaN (JStr s) = (\<not> numericString s)"
| "isNaN (JArr vs) = (\<not> numericString (toStr (JArr vs)))"
| "isNaN (JObject s) = (\<not> numericString s)"

section \<open>FieldMapper: analyzeField\<close>

subsection \<open>The type patterns\<close>

text \<open>\<open>/^-?\d+$/\<close>\<close>

definition integerPattern :: "jsstring \<Rightarrow> bool" where
  "integerPattern s =
     (let r = (if take 1 s = [0x2D] then drop 1 s else s)
      in r \<noteq> [] \<and> list_all isDigit r)"

text \<open>\<open>/^-?\d+\.\d+$/\<close>\<close>

definition decimalPattern :: "jsstring \<Rightarrow> bool" where
  "decimalPattern s =
     (let r = (if take 1 s = [0x2D] then drop 1 s else s);
          a = takeWhile isDigit r;
          rest = dropWhile isDigit r
      in a \<noteq> [] \<and> take 1 rest = [0x2E] \<and> drop 1 rest \<noteq> [] \<and> list_all isDigit (drop 1 rest))"

text \<open>
  \<open>/^(true|false|1|0|yes|no|y|n)$/i\<close>. Without the \<open>u\<close> flag, ignoring case
  matches an ASCII letter of the pattern with its two ASCII forms only.
\<close>

definition booleanPattern :: "jsstring \<Rightarrow> bool" where
  "booleanPattern s =
     (toLowerCase s \<in> set [str ''true'', str ''false'', str ''1'', str ''0'', str ''yes'',
                              str ''no'', str ''y'', str ''n''])"

text \<open>A fixed shape of digits and literal characters, for \<open>\d{4}-\d{2}-\d{2}\<close>.\<close>

datatype shape = Digit | Lit jschar

fun matchesShape :: "shape list \<Rightarrow> jsstring \<Rightarrow> bool" where
  "matchesShape [] [] = True"
| "matchesShape (Digit # ps) (c # cs) = (isDigit c \<and> matchesShape ps cs)"
| "matchesShape (Lit x # ps) (c # cs) = (c = x \<and> matchesShape ps cs)"
| "matchesShape _ _ = False"

definition dateShape :: "shape list" where
  "dateShape = [Digit, Digit, Digit, Digit, Lit 0x2D, Digit, Digit, Lit 0x2D, Digit, Digit]"

definition timeShape :: "shape list" where
  "timeShape = [Digit, Digit, Lit 0x3A, Digit, Digit, Lit 0x3A, Digit, Digit]"

text \<open>\<open>/^\d{4}-\d{2}-\d{2}$/\<close>\<close>

definition datePattern :: "jsstring \<Rightarrow> bool" where
  "datePattern s = matchesShape dateShape s"

text \<open>\<open>/^\d{4}-\d{2}-\d{2}\s+\d{2}:\d{2}:\d{2}$/\<close>\<close>

definition datetimePattern :: "jsstring \<Rightarrow> bool" where
  "datetimePattern s =
     (let r = drop 10 s
      in matchesShape dateShape (take 10 s) \<and> takeWhile isWhiteSpace r \<noteq> [] \<and>
         matchesShape timeShape (dropWhile isWhiteSpace r))"

text \<open>
  \<open>/^[^\s@]+@[^\s@]+\.[^\s@]+$/\<close>: a non-empty local part, an \<open>@\<close>, and a domain
  with a dot that is neither its first nor its last character; no white space and no
  other \<open>@\<close> anywhere.
\<close>

definition emailChar :: "jschar \<Rightarrow> bool" where
  "emailChar c = (\<not> isWhiteSpace c \<and> c \<noteq> 0x40)"

definition emailPattern :: "jsstring \<Rightarrow> bool" where
  "emailPattern s =
     (let localPart = takeWhile emailChar s;
          rest = dropWhile emailChar s;
          domain = drop 1 rest
      in localPart \<noteq> [] \<and> take 1 rest = [0x40] \<and> list_all emailChar domain \<and>
         0x2E \<in> set (butlast (drop 1 domain)))"

subsection \<open>sqlTypes\<close>

definition sqlTypes :: "(jsstring \<times> jsstring) list" where
  "sqlTypes =
     [(str ''integer'', str ''INT''), (str ''decimal'', str ''DECIMAL(10,2)''),
      (str ''boolean'', str ''BOOLEAN''), (str ''date'', str ''DATE''),
      (str ''datetime'', str ''DATETIME''), (str ''email'', str ''VARCHAR(255)''),
      (str ''shortText'', str ''VARCHAR(255)''), (str ''longText'', str ''TEXT''),
      (str ''unknown'', str ''VARCHAR(255)'')]"

text \<open>\<open>this.sqlTypes[type]\<close>; every type looked up below is a key of the table.\<close>

definition sqlTypeOf :: "jsstring \<Rightarrow> jsstring" where
  "sqlTypeOf t = (case map_of sqlTypes t of Some x \<Rightarrow> x | None \<Rightarrow> str ''undefined'')"

subsection \<open>analyzeField\<close>

record fieldAnalysis =
  jsType :: jsstring
  sqlType :: jsstring
  confidence :: rat
  hasNulls :: bool
  maxLength :: jsnumber

text \<open>The array \<open>typeChecks\<close>, in the order of the source.\<close>

definition typeChecks :: "(jsstring \<times> (jsstring \<Rightarrow> bool)) list" where
  "typeChecks =
     [(str ''integer'', integerPattern), (str ''decimal'', decimalPattern),
      (str ''boolean'', booleanPattern), (str ''datetime'', datetimePattern),
      (str ''date'', datePattern), (str ''email'', emailPattern)]"

text \<open>
  \<open>matches.length / nonEmptyValues.length\<close>. The quotient is a rational here and a
  double in the source; a quotient of two array lengths compares with \<open>0.8\<close> in the
  same way in both.
\<close>

definition matchFraction :: "(jsstring \<Rightarrow> bool) \<Rightarrow> jsval list \<Rightarrow> rat" where
  "matchFraction pattern nonEmptyValues =
     of_nat (length (filter (\<lambda>v. pattern (trim (toStr v))) nonEmptyValues))
       / of_nat (length nonEmptyValues)"

text \<open>The loop over \<open>typeChecks\<close>: the first check that reaches the threshold returns.\<close>

fun checkLoop :: "(jsstring \<times> (jsstring \<Rightarrow> bool)) list \<Rightarrow> jsval list \<Rightarrow> (jsstring \<times> rat) option"
  where
  "checkLoop [] nonEmptyValues = None"
| "checkLoop (check # rest) nonEmptyValues =
     (let c = matchFraction (snd check) nonEmptyValues
      in if c \<ge> 8 / 10 then Some (fst check, c) else checkLoop rest nonEmptyValues)"

fun greater :: "jsnumber \<Rightarrow> int \<Rightarrow> bool" where
  "greater NegInfinity n = False"
| "greater (Number m) n = (m > n)"

definition determineStringType :: "jsval list \<Rightarrow> jsnumber \<Rightarrow> jsstring" where
  "determineStringType vals maxLen =
     (if list_ex (\<lambda>v. emailPattern (toStr v)) vals then sqlTypeOf (str ''email'')
      else if greater maxLen 500 then sqlTypeOf (str ''longText'')
      else if greater maxLen 255 then str ''VARCHAR(500)''
      else sqlTypeOf (str ''shortText''))"

definition nonEmpty :: "jsval list \<Rightarrow> jsval list" where
  "nonEmpty vals = filter (\<lambda>v. v \<noteq> JNull \<and> v \<noteq> JUndefined \<and> v \<noteq> JStr []) vals"

definition analyzeField :: "jsstring \<Rightarrow> jsval list \<Rightarrow> fieldAnalysis" where
  "analyzeField fieldName vals =
     (let nonEmptyValues = nonEmpty vals;
          nulls = (length nonEmptyValues < length vals);
          maxLen = mathMax (map (\<lambda>v. length (toStr v)) nonEmptyValues)
      in if nonEmptyValues = [] then
           \<lparr>jsType = str ''string'', sqlType = sqlTypeOf (str ''unknown''), confidence = 0,
            hasNulls = True, maxLength = Number 0\<rparr>
         else
           (case checkLoop typeChecks nonEmptyValues of
              Some (t, c) \<Rightarrow>
                \<lparr>jsType = t, sqlType = sqlTypeOf t, confidence = c, hasNulls = nulls,
                 maxLength = maxLen\<rparr>
            | None \<Rightarrow>
                \<lparr>jsType = str ''string'',
                 sqlType = determineStringType nonEmptyValues maxLen, confidence = 1,
                 hasNulls = nulls, maxLength = maxLen\<rparr>))"

section \<open>SQLGenerator\<close>

subsection \<open>Dialects\<close>

text \<open>One entry of \<open>syntaxMap\<close>; a key that an entry does not have is \<open>None\<close>.\<close>

record sqlSyntax =
  quoteChar :: jsstring
  quoteCharEnd :: "jsstring option"
  stringQuote :: jsstring
  booleanTrue :: jsstring
  booleanFalse :: jsstring
  autoIncrement :: jsstring
  primaryKey :: jsstring
  createTable :: jsstring
  insertIgnore :: jsstring
  onDuplicateKey :: "jsstring option"
  onConflict :: "jsstring option"

definition mysqlSyntax :: sqlSyntax where
  "mysqlSyntax =
     \<lparr>quoteChar = [0x60], quoteCharEnd = None, stringQuote = [0x27],
      booleanTrue = str ''TRUE'', booleanFalse = str ''FALSE'',
      autoIncrement = str ''AUTO_INCREMENT'', primaryKey = str ''PRIMARY KEY'',
      createTable = str ''CREATE TABLE IF NOT EXISTS'',
      insertIgnore = str ''INSERT IGNORE INTO'',
      onDuplicateKey = Some (str ''ON DUPLICATE KEY UPDATE''), onConflict = None\<rparr>"

definition postgresqlSyntax :: sqlSyntax where
  "postgresqlSyntax =
     \<lparr>quoteChar = [0x22], quoteCharEnd = None, stringQuote = [0x27],
      booleanTrue = str ''TRUE'', booleanFalse = str ''FALSE'',
      autoIncrement = str ''SERIAL'', primaryKey = str ''PRIMARY KEY'',
      createTable = str ''CREATE TABLE IF NOT EXISTS'',
      insertIgnore = str ''INSERT INTO'',
      onDuplicateKey = None, onConflict = Some (str ''ON CONFLICT DO NOTHING'')\<rparr>"

definition sqliteSyntax :: sqlSyntax where
  "sqliteSyntax =
     \<lparr>quoteChar = [0x22], quoteCharEnd = None, stringQuote = [0x27],
      booleanTrue = str ''1'', booleanFalse = str ''0'',
      autoIncrement = str ''INTEGER PRIMARY KEY AUTOINCREMENT'',
      primaryKey = str ''PRIMARY KEY'',
      createTable = str ''CREATE TABLE IF NOT EXISTS'',
      insertIgnore = str ''INSERT OR IGNORE INTO'',
      onDuplicateKey = None, onConflict = None\<rparr>"

definition sqlserverSyntax :: sqlSyntax where
  "sqlserverSyntax =
     \<lparr>quoteChar = str ''['', quoteCharEnd = Some (str '']''), stringQuote = [0x27],
      booleanTrue = str ''1'', booleanFalse = str ''0'',
      autoIncrement = str ''IDENTITY(1,1)'', primaryKey = str ''PRIMARY KEY'',
      createTable = str ''CREATE TABLE'',
      insertIgnore = str ''INSERT INTO'',
      onDuplicateKey = None, onConflict = None\<rparr>"

definition syntaxMap :: "(jsstring \<times> sqlSyntax) list" where
  "syntaxMap =
     [(str ''mysql'', mysqlSyntax), (str ''postgresql'', postgresqlSyntax),
      (str ''sqlite'', sqliteSyntax), (str ''sqlserver'', sqlserverSyntax)]"

definition supportedDatabases :: "jsstring list" where
  "supportedDatabases = [str ''mysql'', str ''postgresql'', str ''sqlite'', str ''sqlserver'']"

definition defaultBatchSize :: int where
  "defaultBatchSize = 500"

subsection \<open>The configuration\<close>

text \<open>
  A field mapping, with the keys the generator reads (\<open>mappingSqlType\<close> and
  \<open>mappingJsType\<close> are its keys \<open>sqlType\<close> and \<open>jsType\<close>). An object of the source is
  the list of its own properties, in the order \<open>Object.keys\<close> lists them; a key
  occurs once. A row of \<open>csvData.rows\<close> is an object from column names to cells.
\<close>

record fieldMapping =
  sqlFieldName :: jsstring
  mappingSqlType :: jsstring
  mappingJsType :: jsstring
  nullable :: bool

type_synonym row = "(jsstring \<times> jsval) list"

text \<open>
  What a row inherits: the rows are plain objects, whose prototype is
  \<open>Object.prototype\<close>. Its properties are eleven built-in functions and the
  accessor \<open>__proto__\<close>, which reads as the prototype itself. \<open>String\<close> prints a
  built-in function as \<open>function name() { [native code] }\<close> and the prototype as
  \<open>[object Object]\<close>.
\<close>

definition nativeFunction :: "string \<Rightarrow> jsval" where
  "nativeFunction name = JObject (str ''function '' @ str name @ str ''() { [native code] }'')"

definition objectPrototype :: "(jsstring \<times> jsval) list" where
  "objectPrototype =
     [(str ''constructor'', nativeFunction ''Object''),
      (str ''__defineGetter__'', nativeFunction ''__defineGetter__''),
      (str ''__defineSetter__'', nativeFunction ''__defineSetter__''),
      (str ''hasOwnProperty'', nativeFunction ''hasOwnProperty''),
      (str ''__lookupGetter__'', nativeFunction ''__lookupGetter__''),
      (str ''__lookupSetter__'', nativeFunction ''__lookupSetter__''),
      (str ''isPrototypeOf'', nativeFunction ''isPrototypeOf''),
      (str ''propertyIsEnumerable'', nativeFunction ''propertyIsEnumerable''),
      (str ''toString'', nativeFunction ''toString''),
      (str ''valueOf'', nativeFunction ''valueOf''),
      (str ''__proto__'', JObject (str ''[object Object]'')),
      (str ''toLocaleString'', nativeFunction ''toLocaleString'')]"

text \<open>
  \<open>row[key]\<close>: the row's own property, else the property of that name that it
  inherits, else \<open>undefined\<close>.
\<close>

definition getProp :: "row \<Rightarrow> jsstring \<Rightarrow> jsval" where
  "getProp r key =
     (case map_of r key of
        Some v \<Rightarrow> v
      | None \<Rightarrow> (case map_of objectPrototype key of Some v \<Rightarrow> v | None \<Rightarrow> JUndefined))"

text \<open>
  The options; \<open>None\<close> is a key that is absent. \<open>batchSize\<close> is any value: the
  interface passes a number or the string \<open>all\<close>.
\<close>

record genOptions =
  batchSize :: jsval
  includeTransaction :: "bool option"
  includeComments :: "bool option"
  includeCreateTable :: "bool option"
  insertMode :: "jsstring option"

text \<open>\<open>dataRows\<close> is \<open>csvData.rows\<close>.\<close>

record config =
  operation :: jsstring
  databaseName :: jsstring
  tableName :: jsstring
  databaseType :: jsstring
  fieldMappings :: "(jsstring \<times> fieldMapping) list"
  dataRows :: "row list"
  options :: genOptions

record sqlMetadata =
  metaOperation :: jsstring
  metaDatabaseType :: jsstring
  metaTableName :: jsstring
  recordCount :: nat
  batchCount :: nat
  generatedAt :: jsstring

record generationResult =
  sql :: jsstring
  sqlMetadata :: sqlMetadata
  success :: bool

subsection \<open>Quoting and formatting\<close>

definition nl :: jsstring where
  "nl = [0x0A]"

definition quoteIdentifier :: "jsstring \<Rightarrow> sqlSyntax \<Rightarrow> jsstring" where
  "quoteIdentifier identifier syn =
     (let endQuote = (case quoteCharEnd syn of
                        None \<Rightarrow> quoteChar syn
                      | Some e \<Rightarrow> if e = [] then quoteChar syn else e)
      in quoteChar syn @ identifier @ endQuote)"

definition formatValue :: "jsval \<Rightarrow> fieldMapping \<Rightarrow> sqlSyntax \<Rightarrow> jsstring" where
  "formatValue v mapping syn =
     (if v = JNull \<or> v = JUndefined \<or> v = JStr [] then str ''NULL''
      else
        (let t = mappingJsType mapping;
             stringValue = trim (toStr v)
         in if t = str ''integer'' then stringValue
            else if t = str ''decimal'' then stringValue
            else if t = str ''boolean'' then
              (let boolValue = toLowerCase stringValue
               in if boolValue \<in> set [str ''true'', str ''1'', str ''yes'', str ''y'']
                  then booleanTrue syn else booleanFalse syn)
            else stringQuote syn @ doubleQuotes stringValue @ stringQuote syn))"

text \<open>
  \<open>quoteValue\<close> of the UPDATE path. Its \<open>switch (syntax)\<close> compares the syntax
  object with dialect names, so the \<open>default\<close> branch is always the one taken.
\<close>

definition quoteValue :: "jsval \<Rightarrow> sqlSyntax \<Rightarrow> jsstring" where
  "quoteValue v syn =
     (if v = JNull \<or> v = JUndefined then str ''NULL''
      else if (case v of JNum i \<Rightarrow> True | _ \<Rightarrow> False) \<or> \<not> isNaN v then toStr v
      else [0x27] @ doubleQuotes (toStr v) @ [0x27])"

subsection \<open>INSERT\<close>

definition generateCreateTableSQL ::
  "jsstring \<Rightarrow> (jsstring \<times> fieldMapping) list \<Rightarrow> sqlSyntax \<Rightarrow> jsstring" where
  "generateCreateTableSQL tbl mappings syn =
     createTable syn @ str '' '' @ quoteIdentifier tbl syn @ str '' ('' @ nl
     @ join (str '','' @ nl)
         (map (\<lambda>(originalField, mapping).
                 str ''  '' @ quoteIdentifier (sqlFieldName mapping) syn @ str '' ''
                 @ mappingSqlType mapping
                 @ (if \<not> nullable mapping then str '' NOT NULL'' else []))
              mappings)
     @ nl @ str '');''"

definition generateOnDuplicateKeyUpdate ::
  "(jsstring \<times> fieldMapping) list \<Rightarrow> sqlSyntax \<Rightarrow> jsstring" where
  "generateOnDuplicateKeyUpdate mappings syn =
     str ''ON DUPLICATE KEY UPDATE'' @ nl @ str ''  ''
     @ join (str '','' @ nl @ str ''  '')
         (map (\<lambda>(originalField, mapping).
                 (let quotedField = quoteIdentifier (sqlFieldName mapping) syn
                  in quotedField @ str '' = VALUES('' @ quotedField @ str '')''))
              mappings)"

text \<open>The line of one row in the \<open>VALUES\<close> list.\<close>

definition valueRow :: "(jsstring \<times> fieldMapping) list \<Rightarrow> sqlSyntax \<Rightarrow> row \<Rightarrow> jsstring" where
  "valueRow mappings syn r =
     str ''  ('' @ join (str '', '')
                     (map (\<lambda>(fld, mapping). formatValue (getProp r fld) mapping syn) mappings)
     @ str '')''"

text \<open>
  The text that one pass of the batch loop appends for a non-empty batch, in the
  three parts in which the loop body builds it: the lines up to \<open>VALUES\<close>, the
  value rows of the batch joined by a comma and a line break, and what follows
  them (the conflict clause of the insert mode, the semicolon and two line breaks).
\<close>

definition insertHead :: "config \<Rightarrow> sqlSyntax \<Rightarrow> jsstring" where
  "insertHead cfg syn =
     (let mappings = fieldMappings cfg;
          mode = insertMode (options cfg);
          quotedFields = map (\<lambda>(fld, mapping). quoteIdentifier (sqlFieldName mapping) syn) mappings;
          insertType = (if mode = Some (str ''ignore'') then insertIgnore syn
                        else str ''INSERT INTO'')
      in insertType @ str '' '' @ quoteIdentifier (tableName cfg) syn @ nl
         @ str ''  ('' @ join (str '', '') quotedFields @ str '')'' @ nl @ str ''VALUES'' @ nl)"

definition insertTail :: "config \<Rightarrow> sqlSyntax \<Rightarrow> jsstring" where
  "insertTail cfg syn =
     (let mappings = fieldMappings cfg;
          mode = insertMode (options cfg)
      in (if onDuplicateKey syn \<noteq> None \<and> onDuplicateKey syn \<noteq> Some []
             \<and> mode = Some (str ''update'')
          then nl @ generateOnDuplicateKeyUpdate mappings syn else [])
         @ (case onConflict syn of
              None \<Rightarrow> []
            | Some c \<Rightarrow> if c \<noteq> [] \<and> mode = Some (str ''ignore'') then nl @ c else [])
         @ str '';'' @ nl @ nl)"

definition insertStatement :: "config \<Rightarrow> sqlSyntax \<Rightarrow> row list \<Rightarrow> jsstring" where
  "insertStatement cfg syn batch =
     insertHead cfg syn
     @ join (str '','' @ nl) (map (valueRow (fieldMappings cfg) syn) batch)
     @ insertTail cfg syn"

text \<open>
  The loop \<open>for (let i = 0; i < rows.length; i += batchSize)\<close>, with the state
  \<open>(sql, recordCount, batchCount)\<close>. With a negative batch size the index never
  reaches the length and the loop does not end: the result is then \<open>None\<close>.
\<close>

partial_function (option) batchLoop ::
  "(row list \<Rightarrow> jsstring) \<Rightarrow> row list \<Rightarrow> int \<Rightarrow> int \<Rightarrow> jsstring \<times> nat \<times> nat
   \<Rightarrow> (jsstring \<times> nat \<times> nat) option" where
  "batchLoop render rs step i st =
     (if i < int (length rs) then
        (let batch = sliceArray rs i (i + step)
         in if batch = [] then batchLoop render rs step (i + step) st
            else (case st of (sqlText, records, batches) \<Rightarrow>
                    batchLoop render rs step (i + step)
                      (sqlText @ render batch, records + length batch, batches + 1)))
      else Some st)"

text \<open>\<open>parseInt(options.batchSize) || this.defaultBatchSize\<close>\<close>

definition effectiveBatchSize :: "jsval \<Rightarrow> int" where
  "effectiveBatchSize v =
     (case parseInt v of
        None \<Rightarrow> defaultBatchSize
      | Some n \<Rightarrow> if n = 0 then defaultBatchSize else n)"

text \<open>The text before the loop: the CREATE TABLE statement when it is requested.\<close>

definition createTablePart :: "config \<Rightarrow> sqlSyntax \<Rightarrow> jsstring" where
  "createTablePart cfg syn =
     (if includeCreateTable (options cfg) = Some True
      then generateCreateTableSQL (tableName cfg) (fieldMappings cfg) syn @ nl @ nl
      else [])"

definition generateInsertSQL :: "config \<Rightarrow> sqlSyntax \<Rightarrow> (jsstring \<times> nat \<times> nat) option" where
  "generateInsertSQL cfg syn =
     (let step = effectiveBatchSize (batchSize (options cfg))
      in batchLoop (insertStatement cfg syn) (dataRows cfg) step 0 (createTablePart cfg syn, 0, 0))"

subsection \<open>UPDATE\<close>

text \<open>
  The inner \<open>forEach\<close> over the keys of a row: the state is the pair
  \<open>(whereFields, setFields)\<close>.
\<close>

definition presentValue :: "jsval \<Rightarrow> bool" where
  "presentValue v = (v \<noteq> JNull \<and> v \<noteq> JUndefined \<and> v \<noteq> JStr [])"

definition clauseStep ::
  "row \<Rightarrow> sqlSyntax \<Rightarrow> jsstring \<Rightarrow> jsstring list \<times> jsstring list
   \<Rightarrow> jsstring list \<times> jsstring list" where
  "clauseStep r syn key st =
     (if endsWith key (str ''[WHERE]'') then
        (if presentValue (getProp r key)
         then (fst st @ [quoteIdentifier (removeFirst (str ''[WHERE]'') key) syn @ str '' = ''
                          @ quoteValue (getProp r key) syn], snd st)
         else st)
      else if endsWith key (str ''[SET]'') then
        (if presentValue (getProp r key)
         then (fst st, snd st @ [quoteIdentifier (removeFirst (str ''[SET]'') key) syn
                                  @ str '' = '' @ quoteValue (getProp r key) syn])
         else st)
      else st)"

definition rowClauses :: "row \<Rightarrow> sqlSyntax \<Rightarrow> jsstring list \<times> jsstring list" where
  "rowClauses r syn = fold (clauseStep r syn) (map fst r) ([], [])"

text \<open>
  The outer \<open>forEach\<close> over the rows, with the state \<open>(sql, recordCount)\<close>; a
  \<open>throw\<close> leaves the loop and drops the state.
\<close>

fun updateLoop :: "jsstring \<Rightarrow> sqlSyntax \<Rightarrow> row list \<Rightarrow> jsstring \<times> nat \<Rightarrow> error + jsstring \<times> nat"
  where
  "updateLoop tbl syn [] st = Inr st"
| "updateLoop tbl syn (r # rest) st =
     (let whereFields = fst (rowClauses r syn); setFields = snd (rowClauses r syn)
      in if whereFields = [] then
           Inl (Error (str (''UPDATE mode requires at least one WHERE condition field ''
                            @ ''(column name with [WHERE] suffix)'')))
         else if setFields = [] then
           Inl (Error (str (''UPDATE mode requires at least one SET field ''
                            @ ''(column name with [SET] suffix)'')))
         else
           updateLoop tbl syn rest
             (fst st @ str ''UPDATE '' @ quoteIdentifier tbl syn @ nl
                @ str ''SET '' @ join (str '', '') setFields @ nl
                @ str ''WHERE '' @ join (str '' AND '') whereFields @ str '';'' @ nl @ nl,
              snd st + 1))"

definition generateUpdateSQL :: "config \<Rightarrow> sqlSyntax \<Rightarrow> error + jsstring \<times> nat \<times> nat" where
  "generateUpdateSQL cfg syn =
     (case updateLoop (tableName cfg) syn (dataRows cfg) ([], 0) of
        Inl e \<Rightarrow> Inl e
      | Inr st \<Rightarrow> Inr (fst st, snd st, 1))"

subsection \<open>generateSQL\<close>

text \<open>
  \<open>validateConfig\<close>: \<open>None\<close> when nothing is thrown. The required keys are tested for
  truthiness in the order of the source; the field mappings and the data are objects
  here, which are truthy, and \<open>csvData.rows\<close> is an array.
\<close>

definition validateConfig :: "config \<Rightarrow> error option" where
  "validateConfig cfg =
     (if operation cfg = [] then Some (Error (str ''Missing required configuration: operation''))
      else if databaseName cfg = [] then
        Some (Error (str ''Missing required configuration: databaseName''))
      else if tableName cfg = [] then
        Some (Error (str ''Missing required configuration: tableName''))
      else if databaseType cfg = [] then
        Some (Error (str ''Missing required configuration: databaseType''))
      else if toLowerCase (databaseType cfg) \<notin> set supportedDatabases then
        Some (Error (str ''Unsupported database type: '' @ databaseType cfg))
      else if toUpperCase (operation cfg) \<notin> set [str ''INSERT'', str ''UPDATE''] then
        Some (Error (str ''Unsupported operation: '' @ operation cfg))
      else None)"

definition getTransactionStart :: "jsstring \<Rightarrow> jsstring" where
  "getTransactionStart dbType =
     (let t = toLowerCase dbType
      in if t = str ''mysql'' then str ''START TRANSACTION;'' @ nl @ nl
         else if t = str ''postgresql'' then str ''BEGIN;'' @ nl @ nl
         else if t = str ''sqlite'' then str ''BEGIN TRANSACTION;'' @ nl @ nl
         else if t = str ''sqlserver'' then str ''BEGIN TRANSACTION;'' @ nl @ nl
         else str ''BEGIN;'' @ nl @ nl)"

definition getTransactionEnd :: "jsstring \<Rightarrow> jsstring" where
  "getTransactionEnd dbType = nl @ str ''COMMIT;'' @ nl"

definition commentRule :: jsstring where
  "commentRule = str ''-- ====================================================='' @ nl"

definition generateHeader :: "config \<Rightarrow> jsstring \<Rightarrow> jsstring" where
  "generateHeader cfg generated =
     commentRule
     @ str ''-- Enhanced Import SQL Generator'' @ nl
     @ str ''-- Generated: '' @ generated @ nl
     @ commentRule
     @ str ''-- Operation: '' @ operation cfg @ nl
     @ str ''-- Database: '' @ databaseName cfg @ nl
     @ str ''-- Table: '' @ tableName cfg @ nl
     @ str ''-- Database Type: '' @ databaseType cfg @ nl
     @ commentRule @ nl"

definition generateFooter :: "nat \<Rightarrow> nat \<Rightarrow> jsstring \<Rightarrow> jsstring" where
  "generateFooter records batches completed =
     nl @ commentRule
     @ str ''-- Summary:'' @ nl
     @ str ''-- Records processed: '' @ showNat records @ nl
     @ str ''-- Batches generated: '' @ showNat batches @ nl
     @ str ''-- Completed: '' @ completed @ nl
     @ commentRule"

text \<open>
  What \<open>generateSQL\<close> puts before the body, the header and the start of the
  transaction, and after it, the commit and the footer; each unless its option is
  \<open>false\<close>.
\<close>

definition scriptStart :: "config \<Rightarrow> jsstring \<Rightarrow> jsstring" where
  "scriptStart cfg generated =
     (if includeComments (options cfg) \<noteq> Some False then generateHeader cfg generated else [])
     @ (if includeTransaction (options cfg) \<noteq> Some False
        then getTransactionStart (databaseType cfg) else [])"

definition scriptEnd :: "config \<Rightarrow> nat \<Rightarrow> nat \<Rightarrow> jsstring \<Rightarrow> jsstring" where
  "scriptEnd cfg records batches completed =
     (if includeTransaction (options cfg) \<noteq> Some False
      then getTransactionEnd (databaseType cfg) else [])
     @ (if includeComments (options cfg) \<noteq> Some False
        then generateFooter records batches completed else [])"

text \<open>
  What follows the body in the \<open>try\<close> block: the commit, the footer and the
  returned object.
\<close>

definition finish ::
  "config \<Rightarrow> jsstring \<Rightarrow> jsstring \<Rightarrow> jsstring \<times> nat \<times> nat \<Rightarrow> generationResult" where
  "finish cfg generated completed body =
     (let records = fst (snd body); batches = snd (snd body)
      in \<lparr>sql = scriptStart cfg generated @ fst body
                @ scriptEnd cfg records batches completed,
          sqlMetadata = \<lparr>metaOperation = operation cfg, metaDatabaseType = databaseType cfg,
                         metaTableName = tableName cfg, recordCount = records,
                         batchCount = batches, generatedAt = generated\<rparr>,
          success = True\<rparr>)"

text \<open>
  \<open>generateSQL\<close>. The two readings of the clock, \<open>generated\<close> for the header and
  the metadata and \<open>completed\<close> for the footer, are parameters. An error of the body
  is caught and thrown again with a prefixed message; the script built so far, to
  which the \<open>catch\<close> block appends a rollback, is not part of what is thrown. The
  outer \<open>None\<close> is the INSERT loop not ending.
\<close>

definition generateSQL :: "jsstring \<Rightarrow> jsstring \<Rightarrow> config \<Rightarrow> (error + generationResult) option"
  where
  "generateSQL generated completed cfg =
     (case validateConfig cfg of
        Some e \<Rightarrow> Some (Inl e)
      | None \<Rightarrow>
          (case map_of syntaxMap (toLowerCase (databaseType cfg)) of
             None \<Rightarrow> Some (Inl (Error (str ''Unsupported database type: '' @ databaseType cfg)))
           | Some syn \<Rightarrow>
               (if operation cfg = str ''INSERT'' then
                  (case generateInsertSQL cfg syn of
                     None \<Rightarrow> None
                   | Some body \<Rightarrow> Some (Inr (finish cfg generated completed body)))
                else if operation cfg = str ''UPDATE'' then
                  (case generateUpdateSQL cfg syn of
                     Inl e \<Rightarrow> Some (Inl (Error (str ''SQL generation failed: '' @ message e)))
                   | Inr body \<Rightarrow> Some (Inr (finish cfg generated completed body)))
                else Some (Inr (finish cfg generated completed ([], 0, 0))))))"

section \<open>UpdateOperationHandler\<close>

record setField =
  setName :: jsstring
  setValue :: jsval
  setDataType :: jsstring

record whereCondition =
  fieldName :: jsstring
  operator :: jsstring
  condValue :: jsval
  condDataType :: jsstring
  logicalOperator :: jsstring

text \<open>The fields of the handler; \<open>handlerTable\<close> is its \<open>tableName\<close>.\<close>

record handler =
  handlerTable :: jsstring
  setFields :: "setField list"
  whereConditions :: "whereCondition list"
  validationErrors :: "jsstring list"

text \<open>\<open>forEach((x, index) => ...)\<close> visits the elements with their indices.\<close>

definition indexed :: "'a list \<Rightarrow> (nat \<times> 'a) list" where
  "indexed xs = zip [0..<length xs] xs"

definition setFieldErrors :: "nat \<times> setField \<Rightarrow> jsstring list" where
  "setFieldErrors p =
     (if setName (snd p) = []
      then [str ''SET field at index '' @ showNat (fst p) @ str '' is missing a name'']
      else [])
     @ (if setValue (snd p) = JUndefined
        then [str ''SET field '' @ [0x27] @ setName (snd p) @ [0x27] @ str '' is missing a value'']
        else [])"

definition whereConditionErrors :: "nat \<times> whereCondition \<Rightarrow> jsstring list" where
  "whereConditionErrors p =
     (if fieldName (snd p) = []
      then [str ''WHERE condition at index '' @ showNat (fst p) @ str '' is missing a field name'']
      else [])
     @ (if operator (snd p) \<notin> set [str ''IS NULL'', str ''IS NOT NULL'']
           \<and> condValue (snd p) = JUndefined
        then [str ''WHERE condition '' @ [0x27] @ fieldName (snd p) @ [0x27]
              @ str '' is missing a value'']
        else [])"

definition missingWhereMessage :: jsstring where
  "missingWhereMessage =
     str (''WHERE conditions are strongly recommended '' @ ''to prevent updating all rows'')"

text \<open>
  \<open>validate\<close> rebuilds \<open>validationErrors\<close> and returns whether the list is empty,
  with the handler so changed.
\<close>

definition validate :: "handler \<Rightarrow> bool \<times> handler" where
  "validate h =
     (let errors =
            (if handlerTable h = [] then [str ''Table name is required''] else [])
            @ (if setFields h = []
               then [str ''At least one SET field is required for UPDATE operation'']
               else [])
            @ (if whereConditions h = [] then [missingWhereMessage] else [])
            @ concat (map setFieldErrors (indexed (setFields h)))
            @ concat (map whereConditionErrors (indexed (whereConditions h)))
      in (errors = [], h\<lparr>validationErrors := errors\<rparr>))"

definition quoted :: "jsval \<Rightarrow> jsstring" where
  "quoted v = [0x27] @ doubleQuotes (toStr v) @ [0x27]"

definition formatValueForSQL :: "jsval \<Rightarrow> jsstring \<Rightarrow> jsstring" where
  "formatValueForSQL v dataType =
     (if v = JNull \<or> v = JUndefined then str ''NULL''
      else
        (let t = toLowerCase dataType
         in if t \<in> set [str ''string'', str ''text'', str ''varchar''] then quoted v
            else if t \<in> set [str ''number'', str ''integer'', str ''int'', str ''float'',
                              str ''decimal''] then toStr v
            else if t \<in> set [str ''boolean'', str ''bool''] then
              (if truthy v then str ''TRUE'' else str ''FALSE'')
            else if t = str ''null'' then str ''NULL''
            else quoted v))"

definition generateSetClause :: "handler \<Rightarrow> jsstring" where
  "generateSetClause h =
     join (str '', '')
       (map (\<lambda>f. setName f @ str '' = '' @ formatValueForSQL (setValue f) (setDataType f))
            (setFields h))"

definition conditionText :: "whereCondition \<Rightarrow> jsstring" where
  "conditionText c =
     (if operator c = str ''IS NULL'' \<or> operator c = str ''IS NOT NULL'' then
        fieldName c @ str '' '' @ operator c
      else if operator c = str ''IN'' \<or> operator c = str ''NOT IN'' then
        (case condValue c of
           JArr vs \<Rightarrow>
             fieldName c @ str '' '' @ operator c @ str '' (''
             @ join (str '', '') (map (\<lambda>v. formatValueForSQL v (condDataType c)) vs) @ str '')''
         | _ \<Rightarrow> fieldName c @ str '' = '' @ formatValueForSQL (condValue c) (condDataType c))
      else fieldName c @ str '' '' @ operator c @ str '' ''
           @ formatValueForSQL (condValue c) (condDataType c))"

definition generateWhereClause :: "handler \<Rightarrow> jsstring" where
  "generateWhereClause h =
     (if whereConditions h = [] then []
      else concat (map (\<lambda>p. (if fst p > 0 then str '' '' @ logicalOperator (snd p) @ str '' ''
                               else [])
                              @ conditionText (snd p))
                       (indexed (whereConditions h))))"

text \<open>\<open>generateSQL\<close> of the handler: the statement or the error, and the handler.\<close>

definition handlerGenerateSQL :: "handler \<Rightarrow> (error + jsstring) \<times> handler" where
  "handlerGenerateSQL h =
     (let v = validate h; h' = snd v
      in if \<not> fst v then
           (Inl (Error (str ''Validation failed: '' @ join (str '', '') (validationErrors h'))), h')
         else
           (let setClause = generateSetClause h';
                whereClause = generateWhereClause h';
                s1 = str ''UPDATE '' @ handlerTable h' @ str '' SET '' @ setClause;
                s2 = (if whereClause \<noteq> [] then s1 @ str '' WHERE '' @ whereClause else s1)
            in (Inr (s2 @ str '';''), h')))"

section \<open>The specification's notions\<close>

text \<open>
  These two definitions follow the words of the specification, not the source; the
  theorems below compare them with what the source computes.

  Partitioning into consecutive batches of a given size, the last one holding the
  remainder.
\<close>

function consecutiveBatches :: "nat \<Rightarrow> 'a list \<Rightarrow> 'a list list" where
  "consecutiveBatches n xs =
     (if n = 0 \<or> xs = [] then [] else take n xs # consecutiveBatches n (drop n xs))"
  by pat_completeness auto
termination
  by (relation "measure (\<lambda>(n, xs). length xs)") auto

declare consecutiveBatches.simps [simp del]

text \<open>
  The columns of a row that give a WHERE condition: the name ends in \<open>[WHERE]\<close> and
  the cell is neither \<open>null\<close>, \<open>undefined\<close> nor empty. Likewise for \<open>[SET]\<close>.
\<close>

definition whereMarked :: "row \<Rightarrow> jsstring list" where
  "whereMarked r =
     filter (\<lambda>key. endsWith key (str ''[WHERE]'') \<and> presentValue (getProp r key)) (map fst r)"

definition setMarked :: "row \<Rightarrow> jsstring list" where
  "setMarked r =
     filter (\<lambda>key. endsWith key (str ''[SET]'') \<and> presentValue (getProp r key)) (map fst r)"

section \<open>The specification's example configuration\<close>

text \<open>
  The table \<open>users\<close> of a MySQL database with an integer column \<open>id\<close> and a string
  column \<open>name\<close>, the operation INSERT, given rows and a given \<open>batchSize\<close>, every
  other option absent; and the row \<open>{id: 1, name: "O'Brien"}\<close>.
\<close>

definition usersMappings :: "(jsstring \<times> fieldMapping) list" where
  "usersMappings =
     [(str ''id'', \<lparr>sqlFieldName = str ''id'', mappingSqlType = str ''INT'',
                    mappingJsType = str ''integer'', nullable = False\<rparr>),
      (str ''name'', \<lparr>sqlFieldName = str ''name'', mappingSqlType = str ''VARCHAR(255)'',
                      mappingJsType = str ''string'', nullable = True\<rparr>)]"

definition usersConfig :: "row list \<Rightarrow> jsval \<Rightarrow> config" where
  "usersConfig rs batch =
     \<lparr>operation = str ''INSERT'', databaseName = str ''shop'', tableName = str ''users'',
      databaseType = str ''mysql'', fieldMappings = usersMappings, dataRows = rs,
      options = \<lparr>batchSize = batch, includeTransaction = None, includeComments = None,
                 includeCreateTable = None, insertMode = None\<rparr>\<rparr>"

text \<open>
  A handler with a table name and one SET field and no WHERE condition, and a row of
  an UPDATE template with both markers.
\<close>

definition renameHandler :: handler where
  "renameHandler =
     \<lparr>handlerTable = str ''users'',
      setFields = [\<lparr>setName = str ''name'', setValue = JStr (str ''Ann''),
                    setDataType = str ''string''\<rparr>],
      whereConditions = [], validationErrors = []\<rparr>"

definition updateRow :: "jsval \<Rightarrow> jsval \<Rightarrow> row" where
  "updateRow i n = [(str ''id[WHERE]'', i), (str ''name[SET]'', n)]"

definition obrien :: row where
  "obrien = [(str ''id'', JNum 1), (str ''name'', JStr (str ''O'' @ [0x27] @ str ''Brien''))]"

text \<open>
  The text of the example: the lines of an INSERT statement for the table \<open>users\<close>
  up to \<open>VALUES\<close>, and the value row of a user with a given \<open>id\<close> and \<open>name\<close>.
\<close>

definition usersHead :: jsstring where
  "usersHead =
     str ''INSERT INTO '' @ [0x60] @ str ''users'' @ [0x60] @ nl
     @ str ''  ('' @ [0x60] @ str ''id'' @ [0x60] @ str '', '' @ [0x60] @ str ''name'' @ [0x60]
     @ str '')'' @ nl @ str ''VALUES'' @ nl"

definition userLine :: "string \<Rightarrow> string \<Rightarrow> jsstring" where
  "userLine i n = str ''  ('' @ str i @ str '', '' @ [0x27] @ str n @ [0x27] @ str '')''"

text \<open>Five rows of the table \<open>users\<close>, as \<open>{id: 1, name: "Ann"}\<close> and so on.\<close>

definition userRow :: "jsval \<Rightarrow> jsval \<Rightarrow> row" where
  "userRow i n = [(str ''id'', i), (str ''name'', n)]"



section \<open>Properties of the parser\<close>

subsection \<open>Evaluation and auxiliary facts\<close>

lemmas parser_eval =
  parseCSVText_def parseBody_def inputLines_def removeBOM_def splitLines_def splitFrom.simps
  trim_def isWhiteSpace_def detectDelimiter_def detectStep_def delimiters_def
  countDelimiterOccurrences_def countLoop.simps parseCSVLine_def lineLoop.simps field_def
  rowLoop.simps padRow_def maxRows_def defaultOptions_def str_def Let_def

lemma defaultOptions_fields:
  "optDelimiter defaultOptions = None" "optHasHeader defaultOptions"
  "optEncoding defaultOptions = str ''UTF-8''" "skipEmptyLines defaultOptions"
  "trimValues defaultOptions"
  by (simp_all add: defaultOptions_def)

text \<open>A parsed line always has at least one field: the last field is always pushed.\<close>

lemma lineLoop_nonempty: "lineLoop d tv s res cur inq q \<noteq> []"
proof (induction d tv s res cur inq q rule: lineLoop.induct)
  case (1 delim tv result current inQuotes quoteChar)
  show ?case by (simp add: lineLoop.simps)
next
  case (2 delim tv c cs result current inQuotes quoteChar)
  then show ?case
    by (subst lineLoop.simps(2)) (auto split: list.splits)
qed

lemma parseCSVLine_nonempty: "parseCSVLine l d tv \<noteq> []"
  by (simp add: parseCSVLine_def lineLoop_nonempty)

lemma padRow_length: "length (padRow n r) = max n (length r)"
  by (simp add: padRow_def)

text \<open>Every row the loop adds is a parsed data line, padded.\<close>

lemma rowLoop_rows:
  "r \<in> set (rowLoop d tv se n ls acc) \<Longrightarrow>
   r \<in> set acc \<or> (\<exists>l \<in> set ls. r = padRow n (parseCSVLine l d tv))"
proof (induction d tv se n ls acc rule: rowLoop.induct)
  case (1 delim tv skipEmpty headerCount acc)
  then show ?case by (simp add: rowLoop.simps)
next
  case (2 delim tv skipEmpty headerCount line rest acc)
  from "2.prems" have "r \<in> set acc \<or> r = padRow headerCount (parseCSVLine line delim tv)
      \<or> (\<exists>l \<in> set rest. r = padRow headerCount (parseCSVLine l delim tv))"
    by (subst (asm) rowLoop.simps(2))
       (auto simp: Let_def split: if_splits dest: "2.IH")
  then show ?case by auto
qed

lemma parseBody_Inr:
  "parseBody text opts = Inr t \<Longrightarrow>
   \<exists>first rest. inputLines text opts = first # rest \<and>
     headers t = (if optHasHeader opts then parseCSVLine first (delimiter t) (trimValues opts)
                  else columnNames (length (parseCSVLine first (delimiter t) (trimValues opts)))) \<and>
     rows t = rowLoop (delimiter t) (trimValues opts) (skipEmptyLines opts) (length (headers t))
                (if optHasHeader opts then rest else first # rest) []"
  by (auto simp: parseBody_def Let_def split: if_splits list.splits)

lemma parseCSVText_Inr: "parseCSVText text opts = Inr t \<longleftrightarrow> parseBody text opts = Inr t"
  by (simp add: parseCSVText_def split: sum.splits)

subsection \<open>A line of plain characters\<close>

text \<open>
  A non-empty text of characters that are neither white space, quotes, candidate
  delimiters nor the first byte of a byte-order mark is one header line with one
  field, whatever its length.
\<close>

lemma removeBOM_plain: "\<forall>c \<in> set s. c \<noteq> 0xFEFF \<and> c \<noteq> 0xEF \<Longrightarrow> removeBOM s = s"
  by (cases s) (auto simp: removeBOM_def)

lemma splitFrom_plain: "\<forall>c \<in> set s. c \<noteq> 0x0A \<Longrightarrow> splitFrom cur s = [cur @ s]"
  by (induction cur s rule: splitFrom.induct) (auto simp: splitFrom.simps)

lemma trim_plain: "\<forall>c \<in> set s. \<not> isWhiteSpace c \<Longrightarrow> trim s = s"
proof -
  assume a: "\<forall>c \<in> set s. \<not> isWhiteSpace c"
  have d: "dropWhile isWhiteSpace xs = xs" if "\<forall>c \<in> set xs. \<not> isWhiteSpace c" for xs
    using that by (cases xs) auto
  from a show ?thesis by (simp add: trim_def d)
qed

lemma lineLoop_plain:
  "\<forall>c \<in> set s. c \<noteq> 0x22 \<and> c \<noteq> 0x27 \<and> [c] \<noteq> d \<Longrightarrow>
   lineLoop d tv s res cur inq q = res @ [field tv (cur @ s)]"
  by (induction s arbitrary: cur) (auto simp: lineLoop.simps)

lemma countLoop_plain:
  "\<forall>c \<in> set s. c \<noteq> 0x22 \<and> c \<noteq> 0x27 \<and> [c] \<noteq> d \<Longrightarrow> countLoop d s n False q = n"
  by (induction s) (auto simp: countLoop.simps)

lemma plain_line:
  assumes "s \<noteq> []"
    and p: "\<forall>c \<in> set s. \<not> isWhiteSpace c \<and> c \<notin> {0x22, 0x27, 0x2C, 0x3B, 0x7C, 0xEF}"
  shows "parseCSVText s defaultOptions =
     Inr \<lparr>headers = [s], rows = [], totalRows = 0, columns = 1, delimiter = [0x2C],
          encoding = str ''UTF-8'',
          metadata = \<lparr>originalLineCount = 1, processedRows = 0, skippedRows = 0,
                      hasHeader = True, maxColumnCount = NegInfinity\<rparr>\<rparr>"
proof -
  from p have ws: "\<forall>c \<in> set s. \<not> isWhiteSpace c" by simp
  then have nl: "\<forall>c \<in> set s. c \<noteq> 0x0A" and bom: "\<forall>c \<in> set s. c \<noteq> 0xFEFF \<and> c \<noteq> 0xEF"
    and tab: "\<forall>c \<in> set s. c \<noteq> 0x09"
    using p by (auto simp: isWhiteSpace_def)
  from ws assms(1) have t: "trim s \<noteq> []" by (simp add: trim_plain)
  have l: "inputLines s defaultOptions = [s]"
    by (simp add: inputLines_def removeBOM_plain [OF bom] splitLines_def
        splitFrom_plain [OF nl] defaultOptions_fields t)
  have c: "countDelimiterOccurrences s [x] = 0" if "x \<in> {0x2C, 0x3B, 0x09, 0x7C}" for x
    using that p tab unfolding countDelimiterOccurrences_def
    by (intro countLoop_plain) auto
  have d: "detectDelimiter s = [0x2C]"
    by (simp add: detectDelimiter_def delimiters_def detectStep_def c)
  have h: "parseCSVLine s [0x2C] True = [s]"
    using p unfolding parseCSVLine_def
    by (subst lineLoop_plain) (auto simp: field_def trim_plain [OF ws])
  show ?thesis using assms(1)
    by (simp add: parseCSVText_def parseBody_def l d h defaultOptions_fields rowLoop.simps)
qed

subsection \<open>The byte-size ceiling\<close>

text \<open>
  C2 (as amended). \<open>parseCSVText\<close> never looks at the size of its input: it fails
  exactly when the text is empty or no line is left once blank lines are dropped. The
  field \<open>maxFileSize\<close> is set by the constructor and read nowhere in the parser; the
  10 MB limit is applied by the caller that selects the file.
\<close>

theorem parseCSVText_fails_iff:
  "isl (parseCSVText csvText opts) \<longleftrightarrow> csvText = [] \<or> inputLines csvText opts = []"
  by (auto simp: parseCSVText_def parseBody_def Let_def parseCSVLine_nonempty columnNames_def
           split: list.splits sum.splits if_splits)

theorem parseCSVText_fails_iff_witness:
  "\<not> isl (parseCSVText (str ''id,name'') defaultOptions)"
proof -
  have "inputLines (str ''id,name'') defaultOptions = [str ''id,name'']"
    by (simp add: parser_eval)
  then show ?thesis
    using parseCSVText_fails_iff [of "str ''id,name''" defaultOptions] by (simp add: str_def)
qed

text \<open>
  C2 as stated fails: a text of \<open>maxFileSize + 1\<close> letters \<open>a\<close> is larger than the
  ceiling in any encoding, and it is parsed into a table with one header.
\<close>

theorem oversized_text_counterexample:
  "maxFileSize < byteSize (replicate (Suc maxFileSize) 0x61) \<and>
   parseCSVText (replicate (Suc maxFileSize) 0x61) defaultOptions =
     Inr \<lparr>headers = [replicate (Suc maxFileSize) 0x61], rows = [], totalRows = 0, columns = 1,
          delimiter = [0x2C], encoding = str ''UTF-8'',
          metadata = \<lparr>originalLineCount = 1, processedRows = 0, skippedRows = 0,
                      hasHeader = True, maxColumnCount = NegInfinity\<rparr>\<rparr>"
proof
  have "byteSize (replicate (Suc maxFileSize) 0x61) = Suc maxFileSize"
    unfolding byteSize_def by (simp add: utf8Bytes_def sum_list_replicate del: replicate.simps)
  then show "maxFileSize < byteSize (replicate (Suc maxFileSize) 0x61)" by simp
  show "parseCSVText (replicate (Suc maxFileSize) 0x61) defaultOptions =
     Inr \<lparr>headers = [replicate (Suc maxFileSize) 0x61], rows = [], totalRows = 0, columns = 1,
          delimiter = [0x2C], encoding = str ''UTF-8'',
          metadata = \<lparr>originalLineCount = 1, processedRows = 0, skippedRows = 0,
                      hasHeader = True, maxColumnCount = NegInfinity\<rparr>\<rparr>"
    by (rule plain_line) (simp_all add: isWhiteSpace_def del: replicate.simps)
qed

subsection \<open>Row length and header length\<close>

text \<open>
  C5 (as amended). In every table returned by \<open>parseCSVText\<close>, every row is a parsed
  data line padded with empty strings up to the header length, so its length is at
  least the header length. A row with more fields than the header is kept whole.
\<close>

theorem row_length_at_least_header:
  assumes "parseCSVText csvText opts = Inr t" and "r \<in> set (rows t)"
  shows "length (headers t) \<le> length r \<and>
         (\<exists>line \<in> set (inputLines csvText opts).
            r = padRow (length (headers t)) (parseCSVLine line (delimiter t) (trimValues opts)))"
proof -
  from assms(1) have b: "parseBody csvText opts = Inr t" by (simp add: parseCSVText_Inr)
  from parseBody_Inr [OF b] obtain first rest where
    l: "inputLines csvText opts = first # rest" and
    rs: "rows t = rowLoop (delimiter t) (trimValues opts) (skipEmptyLines opts)
                   (length (headers t)) (if optHasHeader opts then rest else first # rest) []"
    by blast
  from assms(2) rs rowLoop_rows
  obtain line where
    "line \<in> set (if optHasHeader opts then rest else first # rest)"
    "r = padRow (length (headers t)) (parseCSVLine line (delimiter t) (trimValues opts))"
    by fastforce
  with l show ?thesis by (auto simp: padRow_length split: if_splits)
qed

text \<open>The text \<open>a,b\<close>, line feed, \<open>1\<close>: the row is padded to two cells.\<close>

theorem row_length_at_least_header_witness:
  "parseCSVText (str ''a,b'' @ [0x0A] @ str ''1'') defaultOptions =
     Inr \<lparr>headers = [str ''a'', str ''b''], rows = [[str ''1'', []]], totalRows = 1,
          columns = 2, delimiter = str '','', encoding = str ''UTF-8'',
          metadata = \<lparr>originalLineCount = 2, processedRows = 1, skippedRows = 0,
                      hasHeader = True, maxColumnCount = Number 2\<rparr>\<rparr> \<and>
   length [str ''a'', str ''b''] \<le> length [str ''1'', []] \<and>
   (\<exists>line \<in> set (inputLines (str ''a,b'' @ [0x0A] @ str ''1'') defaultOptions).
      [str ''1'', []] = padRow 2 (parseCSVLine line (str '','') True))"
proof -
  let ?t = "\<lparr>headers = [str ''a'', str ''b''], rows = [[str ''1'', []]], totalRows = 1,
          columns = 2, delimiter = str '','', encoding = str ''UTF-8'',
          metadata = \<lparr>originalLineCount = 2, processedRows = 1, skippedRows = 0,
                      hasHeader = True, maxColumnCount = Number 2\<rparr>\<rparr>"
  have 1: "parseCSVText (str ''a,b'' @ [0x0A] @ str ''1'') defaultOptions = Inr ?t"
    by (simp add: parser_eval)
  have 2: "[str ''1'', []] \<in> set (rows ?t)" by simp
  from row_length_at_least_header [OF 1 2] 1 show ?thesis
    by (simp add: defaultOptions_fields numeral_2_eq_2)
qed

text \<open>
  C5 as stated fails: the text \<open>a\<close>, line feed, \<open>1,2\<close> has one header and a row of
  two cells, which is returned with both.
\<close>

theorem long_row_counterexample:
  "parseCSVText (str ''a'' @ [0x0A] @ str ''1,2'') defaultOptions =
     Inr \<lparr>headers = [str ''a''], rows = [[str ''1'', str ''2'']], totalRows = 1, columns = 1,
          delimiter = str '','', encoding = str ''UTF-8'',
          metadata = \<lparr>originalLineCount = 2, processedRows = 1, skippedRows = 0,
                      hasHeader = True, maxColumnCount = Number 2\<rparr>\<rparr> \<and>
   length [str ''1'', str ''2''] \<noteq> length [str ''a'']"
  by (simp add: parser_eval)

subsection \<open>A header line alone\<close>

text \<open>
  C10. When the text is not empty, the first line is a header and no other line is
  left, \<open>parseCSVText\<close> succeeds with the header's fields, no rows, \<open>totalRows = 0\<close>
  and \<open>maxColumnCount = -Infinity\<close>, the maximum of no numbers.
\<close>

theorem header_only_table:
  assumes "csvText \<noteq> []" and "optHasHeader opts" and "inputLines csvText opts = [h]"
  shows "\<exists>t. parseCSVText csvText opts = Inr t \<and>
             headers t = parseCSVLine h (delimiter t) (trimValues opts) \<and>
             rows t = [] \<and> totalRows t = 0 \<and> maxColumnCount (metadata t) = NegInfinity"
  using assms
  by (simp add: parseCSVText_def parseBody_def Let_def parseCSVLine_nonempty rowLoop.simps)

theorem header_only_table_witness:
  "str ''id,name'' @ [0x0D, 0x0A] \<noteq> [] \<and> optHasHeader defaultOptions \<and>
   inputLines (str ''id,name'' @ [0x0D, 0x0A]) defaultOptions = [str ''id,name''] \<and>
   (\<exists>t. parseCSVText (str ''id,name'' @ [0x0D, 0x0A]) defaultOptions = Inr t \<and>
       headers t = parseCSVLine (str ''id,name'') (delimiter t) (trimValues defaultOptions) \<and>
       rows t = [] \<and> totalRows t = 0 \<and> maxColumnCount (metadata t) = NegInfinity)"
proof -
  have 1: "str ''id,name'' @ [0x0D, 0x0A] \<noteq> []" by simp
  have 2: "optHasHeader defaultOptions" by (simp add: defaultOptions_def)
  have 3: "inputLines (str ''id,name'' @ [0x0D, 0x0A]) defaultOptions = [str ''id,name'']"
    by (simp add: parser_eval)
  from header_only_table [OF 1 2 3] 1 2 3 show ?thesis by blast
qed

section \<open>Properties of type inference\<close>

lemma str_eq_Nil [simp]: "str s = [] \<longleftrightarrow> s = []"
  by (simp add: str_def)

lemma checkLoop_first:
  "i < length cs \<Longrightarrow> 8 / 10 \<le> matchFraction (snd (cs ! i)) vs \<Longrightarrow>
   \<forall>j<i. matchFraction (snd (cs ! j)) vs < 8 / 10 \<Longrightarrow>
   checkLoop cs vs = Some (fst (cs ! i), matchFraction (snd (cs ! i)) vs)"
proof (induction cs arbitrary: i)
  case Nil
  then show ?case by simp
next
  case (Cons c cs)
  show ?case
  proof (cases i)
    case 0
    with Cons.prems show ?thesis by simp
  next
    case (Suc k)
    with Cons.prems have "k < length cs" "8 / 10 \<le> matchFraction (snd (cs ! k)) vs"
      "\<forall>j<k. matchFraction (snd (cs ! j)) vs < 8 / 10" by auto
    then have "checkLoop cs vs = Some (fst (cs ! k), matchFraction (snd (cs ! k)) vs)"
      by (rule Cons.IH)
    moreover from Cons.prems Suc have "\<not> 8 / 10 \<le> matchFraction (snd c) vs"
      by (auto simp: not_le)
    ultimately show ?thesis using Suc by (simp add: Let_def)
  qed
qed

lemmas pattern_eval =
  integerPattern_def decimalPattern_def booleanPattern_def datetimePattern_def datePattern_def
  emailPattern_def emailChar_def isDigit_def dateShape_def timeShape_def toLowerCase_def lowerCaseUnit_def
  trim_def isWhiteSpace_def str_def Let_def


lemma analyzeField_first:
  assumes "nonEmpty vals \<noteq> []" and "i < length typeChecks"
    and "8 / 10 \<le> matchFraction (snd (typeChecks ! i)) (nonEmpty vals)"
    and "\<forall>j<i. matchFraction (snd (typeChecks ! j)) (nonEmpty vals) < 8 / 10"
  shows "analyzeField name vals =
           \<lparr>jsType = fst (typeChecks ! i), sqlType = sqlTypeOf (fst (typeChecks ! i)),
            confidence = matchFraction (snd (typeChecks ! i)) (nonEmpty vals),
            hasNulls = (length (nonEmpty vals) < length vals),
            maxLength = mathMax (map (\<lambda>v. length (toStr v)) (nonEmpty vals))\<rparr>"
  using assms(1) checkLoop_first [OF assms(2-4)] by (simp add: analyzeField_def Let_def)

lemma integer_column:
  "analyzeField name [JStr (str ''1''), JStr (str ''2''), JStr (str ''3'')] =
     \<lparr>jsType = str ''integer'', sqlType = str ''INT'', confidence = 1, hasNulls = False,
      maxLength = Number 1\<rparr>"
  by (simp add: analyzeField_def nonEmpty_def typeChecks_def matchFraction_def pattern_eval
      sqlTypeOf_def sqlTypes_def)

lemma email_column:
  "analyzeField name [JStr (str ''a@x.com''), JStr (str ''b@y.com'')] =
     \<lparr>jsType = str ''email'', sqlType = str ''VARCHAR(255)'', confidence = 1, hasNulls = False,
      maxLength = Number 7\<rparr>"
  by (simp add: analyzeField_def nonEmpty_def typeChecks_def matchFraction_def pattern_eval
      sqlTypeOf_def sqlTypes_def)

text \<open>
  C6. The checks are listed in the order integer, decimal, boolean, datetime, date,
  email. When a column has a non-empty value and check \<open>i\<close> is the first whose
  matching fraction among the non-empty values is at least 0.8, the column gets the
  type of check \<open>i\<close> and that fraction as confidence. The column \<open>["1","2","3"]\<close>
  is an integer column with confidence 1, and \<open>["a@x.com","b@y.com"]\<close> is an email
  column.
\<close>

theorem type_inference_order:
  "map fst typeChecks =
     [str ''integer'', str ''decimal'', str ''boolean'', str ''datetime'', str ''date'',
      str ''email''] \<and>
   (nonEmpty vals \<noteq> [] \<and> i < length typeChecks \<and>
    8 / 10 \<le> matchFraction (snd (typeChecks ! i)) (nonEmpty vals) \<and>
    (\<forall>j<i. matchFraction (snd (typeChecks ! j)) (nonEmpty vals) < 8 / 10) \<longrightarrow>
      jsType (analyzeField name vals) = fst (typeChecks ! i) \<and>
      sqlType (analyzeField name vals) = sqlTypeOf (fst (typeChecks ! i)) \<and>
      confidence (analyzeField name vals) =
        matchFraction (snd (typeChecks ! i)) (nonEmpty vals)) \<and>
   jsType (analyzeField name [JStr (str ''1''), JStr (str ''2''), JStr (str ''3'')])
     = str ''integer'' \<and>
   confidence (analyzeField name [JStr (str ''1''), JStr (str ''2''), JStr (str ''3'')]) = 1 \<and>
   jsType (analyzeField name [JStr (str ''a@x.com''), JStr (str ''b@y.com'')]) = str ''email''"
proof (intro conjI impI)
  show "map fst typeChecks =
     [str ''integer'', str ''decimal'', str ''boolean'', str ''datetime'', str ''date'',
      str ''email'']"
    by (simp add: typeChecks_def)
next
  assume a: "nonEmpty vals \<noteq> [] \<and> i < length typeChecks \<and>
    8 / 10 \<le> matchFraction (snd (typeChecks ! i)) (nonEmpty vals) \<and>
    (\<forall>j<i. matchFraction (snd (typeChecks ! j)) (nonEmpty vals) < 8 / 10)"
  then have e: "analyzeField name vals =
           \<lparr>jsType = fst (typeChecks ! i), sqlType = sqlTypeOf (fst (typeChecks ! i)),
            confidence = matchFraction (snd (typeChecks ! i)) (nonEmpty vals),
            hasNulls = (length (nonEmpty vals) < length vals),
            maxLength = mathMax (map (\<lambda>v. length (toStr v)) (nonEmpty vals))\<rparr>"
    by (intro analyzeField_first) simp_all
  show "jsType (analyzeField name vals) = fst (typeChecks ! i)" by (simp add: e)
  show "sqlType (analyzeField name vals) = sqlTypeOf (fst (typeChecks ! i))" by (simp add: e)
  show "confidence (analyzeField name vals) =
        matchFraction (snd (typeChecks ! i)) (nonEmpty vals)" by (simp add: e)
qed (simp_all add: integer_column email_column)

text \<open>
  A column of five values, four of them dates: the date check is the fifth of the
  list (index 4), it is the first to reach the threshold, and the confidence is 4/5.
\<close>

theorem type_inference_order_witness:
  "jsType (analyzeField (str ''day'')
      [JStr (str ''2024-01-01''), JStr [], JStr (str ''2024-01-02''), JStr (str ''n/a''),
       JStr (str ''2024-01-03''), JStr (str ''2024-01-04'')]) = str ''date'' \<and>
   sqlType (analyzeField (str ''day'')
      [JStr (str ''2024-01-01''), JStr [], JStr (str ''2024-01-02''), JStr (str ''n/a''),
       JStr (str ''2024-01-03''), JStr (str ''2024-01-04'')]) = str ''DATE'' \<and>
   confidence (analyzeField (str ''day'')
      [JStr (str ''2024-01-01''), JStr [], JStr (str ''2024-01-02''), JStr (str ''n/a''),
       JStr (str ''2024-01-03''), JStr (str ''2024-01-04'')]) = 4 / 5"
proof -
  let ?vals = "[JStr (str ''2024-01-01''), JStr [], JStr (str ''2024-01-02''),
                JStr (str ''n/a''), JStr (str ''2024-01-03''), JStr (str ''2024-01-04'')]"
  have f: "map (\<lambda>p. matchFraction (snd p) (nonEmpty ?vals)) typeChecks = [0, 0, 0, 0, 4 / 5, 0]"
    by (simp add: typeChecks_def nonEmpty_def matchFraction_def pattern_eval)
  have t: "typeChecks ! 4 = (str ''date'', datePattern)" by (simp add: typeChecks_def)
  have 1: "nonEmpty ?vals \<noteq> []" by (simp add: nonEmpty_def)
  have 2: "(4::nat) < length typeChecks" by (simp add: typeChecks_def)
  have 3: "8 / 10 \<le> matchFraction (snd (typeChecks ! 4)) (nonEmpty ?vals)"
    using f by (simp add: typeChecks_def)
  have 4: "\<forall>j<4. matchFraction (snd (typeChecks ! j)) (nonEmpty ?vals) < 8 / 10"
  proof (intro allI impI)
    fix j :: nat assume "j < 4"
    then consider "j = 0" | "j = 1" | "j = 2" | "j = 3" by linarith
    then show "matchFraction (snd (typeChecks ! j)) (nonEmpty ?vals) < 8 / 10"
      using f by cases (simp_all add: typeChecks_def)
  qed
  have 5: "matchFraction datePattern (nonEmpty ?vals) = 4 / 5"
    using f by (simp add: typeChecks_def)
  have 6: "sqlTypeOf (str ''date'') = str ''DATE''"
    by (simp add: sqlTypeOf_def sqlTypes_def str_def)
  from type_inference_order [of ?vals 4 "str ''day''"] 1 2 3 4
  have "jsType (analyzeField (str ''day'') ?vals) = fst (typeChecks ! 4) \<and>
        sqlType (analyzeField (str ''day'') ?vals) = sqlTypeOf (fst (typeChecks ! 4)) \<and>
        confidence (analyzeField (str ''day'') ?vals) =
          matchFraction (snd (typeChecks ! 4)) (nonEmpty ?vals)"
    by blast
  then show ?thesis by (simp add: t 5 6)
qed

section \<open>Properties of the generator\<close>

subsection \<open>The batch loop\<close>

lemma consecutiveBatches_Nil [simp]: "consecutiveBatches n [] = []"
  by (simp add: consecutiveBatches.simps)

lemma slice_forward:
  assumes "0 \<le> i" and "0 < step"
  shows "sliceArray rs i (i + step) = take (nat step) (drop (nat i) rs)"
proof -
  let ?len = "int (length rs)"
  have s: "sliceArray rs i (i + step) =
           take (nat (min (i + step) ?len - min i ?len)) (drop (nat (min i ?len)) rs)"
    using assms by (simp add: sliceArray_def Let_def)
  show ?thesis
  proof (cases "i + step \<le> ?len")
    case True
    with assms have "min (i + step) ?len - min i ?len = step" "min i ?len = i" by auto
    with s show ?thesis by simp
  next
    case False
    show ?thesis
    proof (cases "i \<le> ?len")
      case True
      with False assms have e: "min (i + step) ?len - min i ?len = ?len - i" "min i ?len = i"
        by auto
      from False True assms have "length (drop (nat i) rs) \<le> nat step" by (simp; linarith?)
      moreover from True assms have "length (drop (nat i) rs) \<le> nat (?len - i)"
        by (simp; linarith?)
      ultimately show ?thesis using s e by simp
    next
      case False
      with assms have "drop (nat i) rs = []" "drop (nat (min i ?len)) rs = []" by auto
      with s show ?thesis by simp
    qed
  qed
qed

lemma batchLoop_forward:
  assumes "0 < step" and "0 \<le> i"
  shows "batchLoop render rs step i (sqlText, records, batches) =
           Some (sqlText @ concat (map render (consecutiveBatches (nat step) (drop (nat i) rs))),
                 records + (length rs - nat i),
                 batches + length (consecutiveBatches (nat step) (drop (nat i) rs)))"
  using assms(2)
proof (induction "length rs - nat i" arbitrary: i sqlText records batches rule: less_induct)
  case less
  show ?case
  proof (cases "i < int (length rs)")
    case False
    then have "drop (nat i) rs = []" by simp
    moreover from False have "length rs - nat i = 0" by simp
    ultimately show ?thesis using False by (subst batchLoop.simps) simp
  next
    case True
    let ?batch = "take (nat step) (drop (nat i) rs)"
    from True less.prems have ne: "drop (nat i) rs \<noteq> []" by simp
    with assms(1) have bne: "?batch \<noteq> []" by simp
    have sl: "sliceArray rs i (i + step) = ?batch" using less.prems assms(1) by (rule slice_forward)
    have dd: "nat step + nat i = nat (i + step)"
      using less.prems assms(1) by simp
    have cb: "consecutiveBatches (nat step) (drop (nat i) rs) =
              ?batch # consecutiveBatches (nat step) (drop (nat (i + step)) rs)"
      using ne assms(1) by (subst consecutiveBatches.simps) (simp add: dd)
    have m: "length rs - nat (i + step) < length rs - nat i"
      using True less.prems assms(1) by linarith
    have nn: "0 \<le> i + step" using less.prems assms(1) by simp
    have len: "length ?batch + (length rs - nat (i + step)) = length rs - nat i"
      using True less.prems assms(1) by (simp add: min_def nat_add_distrib; linarith?)
    have "batchLoop render rs step i (sqlText, records, batches) =
          batchLoop render rs step (i + step)
            (sqlText @ render ?batch, records + length ?batch, batches + 1)"
      using True bne by (subst batchLoop.simps) (simp add: sl Let_def)
    also have "\<dots> = Some ((sqlText @ render ?batch)
                 @ concat (map render (consecutiveBatches (nat step) (drop (nat (i + step)) rs))),
               (records + length ?batch) + (length rs - nat (i + step)),
               (batches + 1) + length (consecutiveBatches (nat step) (drop (nat (i + step)) rs)))"
      by (rule less.hyps [OF m nn])
    finally show ?thesis using len by (simp add: cb)
  qed
qed

lemma consecutiveBatches_step:
  "0 < n \<Longrightarrow> xs \<noteq> [] \<Longrightarrow>
   consecutiveBatches n xs = take n xs # consecutiveBatches n (drop n xs)"
  by (subst consecutiveBatches.simps) simp


lemma length_consecutiveBatches:
  "0 < n \<Longrightarrow> length (consecutiveBatches n xs) = (length xs + n - 1) div n"
proof (induction n xs rule: consecutiveBatches.induct)
  case (1 n xs)
  show ?case
  proof (cases "xs = []")
    case True
    with "1.prems" show ?thesis by simp
  next
    case False
    then obtain m where m: "length xs = Suc m" by (cases xs) auto
    have "(m + n) div n = Suc (m div n)" using "1.prems" by (simp add: div_add_self2)
    then have e: "(Suc m + n - 1) div n = Suc (m div n)" by simp
    have ih: "length (consecutiveBatches n (drop n xs)) = (length (drop n xs) + n - 1) div n"
      using "1.IH" False "1.prems" by blast
    have "(length (drop n xs) + n - 1) div n = m div n"
    proof (cases "n \<le> Suc m")
      case True
      then have "Suc m - n + n - 1 = m" by arith
      then show ?thesis by (simp only: length_drop m)
    next
      case False
      then have "Suc m - n + n - 1 = n - 1" "m < n" "n - 1 < n" by arith+
      then show ?thesis by (simp only: length_drop m div_less)
    qed
    with ih have "length (consecutiveBatches n (drop n xs)) = m div n" by (simp only:)
    moreover have "consecutiveBatches n xs = take n xs # consecutiveBatches n (drop n xs)"
      using "1.prems" False by (rule consecutiveBatches_step)
    ultimately have "length (consecutiveBatches n xs) = Suc (m div n)"
      by (simp only: length_Cons)
    with e m show ?thesis by (simp only:)
  qed
qed

lemma sizes_consecutiveBatches:
  "0 < n \<Longrightarrow> map length (consecutiveBatches n xs) =
     replicate (length xs div n) n @ (if length xs mod n = 0 then [] else [length xs mod n])"
proof (induction n xs rule: consecutiveBatches.induct)
  case (1 n xs)
  show ?case
  proof (cases "xs = []")
    case True
    then show ?thesis by simp
  next
    case False
    show ?thesis
    proof (cases "n \<le> length xs")
      case True
      then have d: "length xs div n = Suc ((length xs - n) div n)"
        using "1.prems" by (simp add: le_div_geq)
      have m: "length xs mod n = (length xs - n) mod n"
        using True by (simp add: le_mod_geq)
      from 1 False have "map length (consecutiveBatches n (drop n xs)) =
        replicate ((length xs - n) div n) n @
          (if (length xs - n) mod n = 0 then [] else [(length xs - n) mod n])"
        by simp
      with False True "1.prems" show ?thesis
        by (simp add: consecutiveBatches_step d m)
    next
      case False
      with \<open>xs \<noteq> []\<close> "1.prems" show ?thesis
        by (simp add: consecutiveBatches_step)
    qed
  qed
qed

subsection \<open>The batch size\<close>










lemma effectiveBatchSize_all: "effectiveBatchSize (JStr (str ''all'')) = 500"
  by (simp add: effectiveBatchSize_def parseInt_def Let_def str_def isWhiteSpace_def isDigit_def
      stripSign_def defaultBatchSize_def)

subsection \<open>INSERT in batches\<close>

lemma generateInsertSQL_forward:
  assumes "0 < effectiveBatchSize (batchSize (options cfg))"
  shows "generateInsertSQL cfg syn =
     Some (createTablePart cfg syn
             @ concat (map (insertStatement cfg syn)
                 (consecutiveBatches (nat (effectiveBatchSize (batchSize (options cfg))))
                    (dataRows cfg))),
           length (dataRows cfg),
           length (consecutiveBatches (nat (effectiveBatchSize (batchSize (options cfg))))
                    (dataRows cfg)))"
  using batchLoop_forward [OF assms, of 0 "insertStatement cfg syn" "dataRows cfg"
      "createTablePart cfg syn" 0 0]
  by (simp add: generateInsertSQL_def Let_def)

lemma valid_dialect:
  assumes "validateConfig cfg = None"
  shows "\<exists>syn. map_of syntaxMap (toLowerCase (databaseType cfg)) = Some syn"
proof -
  from assms have "toLowerCase (databaseType cfg) \<in> set supportedDatabases"
    by (simp add: validateConfig_def split: if_splits)
  then show ?thesis
    by (auto simp: supportedDatabases_def syntaxMap_def)
qed

lemma sublist_join: "x \<in> set xs \<Longrightarrow> sublist x (join sep xs)"
proof (induction sep xs rule: join.induct)
  case (3 sep y z zs)
  show ?case
  proof (cases "x = y")
    case True
    then show ?thesis by (simp add: sublist_append_rightI)
  next
    case False
    with 3 have "sublist x (join sep (z # zs))" by simp
    then obtain ps ss where "join sep (z # zs) = ps @ x @ ss" by (auto simp: sublist_def)
    then have "join sep (y # z # zs) = (y @ sep @ ps) @ x @ ss" by simp
    then show ?thesis by (simp only: sublist_appendI)
  qed
qed simp_all


lemma valueRow_in_statement:
  assumes "r \<in> set batch"
  shows "sublist (valueRow (fieldMappings cfg) syn r) (insertStatement cfg syn batch)"
proof -
  from assms have "sublist (valueRow (fieldMappings cfg) syn r)
      (join (str '','' @ nl) (map (valueRow (fieldMappings cfg) syn) batch))"
    by (intro sublist_join) simp
  also have "sublist \<dots> (insertStatement cfg syn batch)"
    unfolding insertStatement_def by (rule sublist_appendI)
  finally show ?thesis .
qed





lemma usersConfig_fields:
  "operation (usersConfig rs v) = str ''INSERT''" "databaseName (usersConfig rs v) = str ''shop''"
  "tableName (usersConfig rs v) = str ''users''" "databaseType (usersConfig rs v) = str ''mysql''"
  "fieldMappings (usersConfig rs v) = usersMappings" "dataRows (usersConfig rs v) = rs"
  "batchSize (options (usersConfig rs v)) = v"
  "includeTransaction (options (usersConfig rs v)) = None"
  "includeComments (options (usersConfig rs v)) = None"
  "includeCreateTable (options (usersConfig rs v)) = None"
  "insertMode (options (usersConfig rs v)) = None"
  by (simp_all add: usersConfig_def)

lemma lower_mysql: "toLowerCase (str ''mysql'') = str ''mysql''"
  by (simp add: toLowerCase_def lowerCaseUnit_def str_def)

lemma usersConfig_valid: "validateConfig (usersConfig rs v) = None"
  by (simp add: validateConfig_def usersConfig_fields lower_mysql supportedDatabases_def)
     (simp add: toUpperCase_def upperCaseUnit_def str_def)

lemma usersConfig_syntax:
  "map_of syntaxMap (toLowerCase (databaseType (usersConfig rs v))) = Some mysqlSyntax"
  by (simp add: usersConfig_fields lower_mysql syntaxMap_def)

text \<open>
  \<open>toUpperCase\<close> maps the dotless i and the long s to \<open>I\<close> and \<open>S\<close>: an operation
  written with them passes \<open>validateConfig\<close>.
\<close>

lemma dotless_operation:
  "validateConfig ((usersConfig rs v) \<lparr>operation := [0x131, 0x6E, 0x17F, 0x65, 0x72, 0x74]\<rparr>) = None"
  by (simp add: validateConfig_def usersConfig_def lower_mysql supportedDatabases_def)
     (simp add: toUpperCase_def upperCaseUnit_def str_def)


lemma showNat_digit: "n < 10 \<Longrightarrow> showNat n = [digitChar n]"
  by (subst showNat.simps) simp

lemma users_head: "insertHead (usersConfig rs v) mysqlSyntax = usersHead"
  by (simp add: insertHead_def usersConfig_fields usersHead_def Let_def)
     (simp add: usersMappings_def mysqlSyntax_def quoteIdentifier_def str_def)

lemma users_tail: "insertTail (usersConfig rs v) mysqlSyntax = str '';'' @ nl @ nl"
  by (simp add: insertTail_def usersConfig_fields mysqlSyntax_def Let_def)





text \<open>
  The string \<open>all\<close>, which the interface passes for "all rows", is not a number
  for \<open>parseInt\<close>: the default batch size 500 is used, and 501 rows are emitted as
  two INSERT statements, of 500 rows and of 1 row.
\<close>

lemma batch_size_all_is_default:
  "effectiveBatchSize (JStr (str ''all'')) = 500 \<and>
   generateInsertSQL (usersConfig (replicate 501 obrien) (JStr (str ''all''))) mysqlSyntax =
     Some (concat (map (insertStatement (usersConfig (replicate 501 obrien) (JStr (str ''all'')))
                          mysqlSyntax)
                       (consecutiveBatches 500 (replicate 501 obrien))),
           501, 2) \<and>
   map length (consecutiveBatches 500 (replicate 501 obrien)) = [500, 1]"
proof -
  let ?cfg = "usersConfig (replicate 501 obrien) (JStr (str ''all''))"
  have e: "effectiveBatchSize (batchSize (options ?cfg)) = 500"
    by (simp add: usersConfig_fields effectiveBatchSize_all)
  have l: "length (consecutiveBatches 500 (replicate 501 obrien)) = 2"
    by (simp add: length_consecutiveBatches)
  have s: "map length (consecutiveBatches 500 (replicate 501 obrien)) = [500, 1]"
    by (simp add: sizes_consecutiveBatches)
  have "generateInsertSQL ?cfg mysqlSyntax =
     Some (createTablePart ?cfg mysqlSyntax
             @ concat (map (insertStatement ?cfg mysqlSyntax)
                 (consecutiveBatches (nat 500) (dataRows ?cfg))),
           length (dataRows ?cfg),
           length (consecutiveBatches (nat 500) (dataRows ?cfg)))"
    using generateInsertSQL_forward [of ?cfg mysqlSyntax] by (simp only: e)
  then show ?thesis
    using l s by (simp add: effectiveBatchSize_all usersConfig_fields createTablePart_def)
qed

lemma effectiveBatchSize_default:
  "parseInt v = None \<or> parseInt v = Some 0 \<Longrightarrow> effectiveBatchSize v = 500"
  by (auto simp: effectiveBatchSize_def defaultBatchSize_def)

lemma parseInt_undefined: "parseInt JUndefined = None"
  by (simp add: parseInt_def Let_def str_def isWhiteSpace_def isDigit_def stripSign_def)

lemma one_batch: "0 < n \<Longrightarrow> xs \<noteq> [] \<Longrightarrow> length xs \<le> n \<Longrightarrow> consecutiveBatches n xs = [xs]"
  by (simp add: consecutiveBatches_step)

text \<open>
  C3 (as amended). When \<open>batchSize\<close> is absent, or is a value other than \<open>"all"\<close>
  that \<open>parseInt\<close> reads as \<open>NaN\<close> or as 0, the default batch size 500 is used: the
  rows are emitted in consecutive batches of 500 rows with a smaller remainder last,
  and they form one single batch when there are at most 500 of them.
\<close>

theorem default_batch_size:
  assumes "batchSize (options cfg) \<noteq> JStr (str ''all'')"
    and "parseInt (batchSize (options cfg)) = None \<or> parseInt (batchSize (options cfg)) = Some 0"
  shows "generateInsertSQL cfg syn =
           Some (createTablePart cfg syn
                   @ concat (map (insertStatement cfg syn)
                               (consecutiveBatches 500 (dataRows cfg))),
                 length (dataRows cfg),
                 (length (dataRows cfg) + 499) div 500) \<and>
         map length (consecutiveBatches 500 (dataRows cfg)) =
           replicate (length (dataRows cfg) div 500) 500
           @ (if length (dataRows cfg) mod 500 = 0 then [] else [length (dataRows cfg) mod 500]) \<and>
         (dataRows cfg \<noteq> [] \<and> length (dataRows cfg) \<le> 500 \<longrightarrow>
            consecutiveBatches 500 (dataRows cfg) = [dataRows cfg])"
proof -
  have e: "effectiveBatchSize (batchSize (options cfg)) = 500"
    using assms(2) by (rule effectiveBatchSize_default)
  have "generateInsertSQL cfg syn =
     Some (createTablePart cfg syn
             @ concat (map (insertStatement cfg syn)
                 (consecutiveBatches (nat 500) (dataRows cfg))),
           length (dataRows cfg),
           length (consecutiveBatches (nat 500) (dataRows cfg)))"
    using generateInsertSQL_forward [of cfg syn] by (simp only: e)
  then have g: "generateInsertSQL cfg syn =
           Some (createTablePart cfg syn
                   @ concat (map (insertStatement cfg syn)
                               (consecutiveBatches 500 (dataRows cfg))),
                 length (dataRows cfg),
                 (length (dataRows cfg) + 499) div 500)"
    by (simp add: length_consecutiveBatches)
  have s: "map length (consecutiveBatches 500 (dataRows cfg)) =
           replicate (length (dataRows cfg) div 500) 500
           @ (if length (dataRows cfg) mod 500 = 0 then [] else [length (dataRows cfg) mod 500])"
    by (rule sizes_consecutiveBatches) simp
  have o: "dataRows cfg \<noteq> [] \<and> length (dataRows cfg) \<le> 500 \<longrightarrow>
            consecutiveBatches 500 (dataRows cfg) = [dataRows cfg]"
    by (simp add: one_batch)
  from g s o show ?thesis by blast
qed

theorem default_batch_size_witness:
  "batchSize (options (usersConfig [obrien] JUndefined)) \<noteq> JStr (str ''all'') \<and>
   parseInt (batchSize (options (usersConfig [obrien] JUndefined))) = None \<and>
   generateInsertSQL (usersConfig [obrien] JUndefined) mysqlSyntax =
     Some (insertStatement (usersConfig [obrien] JUndefined) mysqlSyntax [obrien], 1, 1) \<and>
   consecutiveBatches 500 [obrien] = [[obrien]]"
proof -
  let ?cfg = "usersConfig [obrien] JUndefined"
  have 1: "batchSize (options ?cfg) \<noteq> JStr (str ''all'')" by (simp add: usersConfig_fields)
  have 2: "parseInt (batchSize (options ?cfg)) = None"
    by (simp add: usersConfig_fields parseInt_undefined)
  then have 3: "parseInt (batchSize (options ?cfg)) = None
                \<or> parseInt (batchSize (options ?cfg)) = Some 0" by simp
  from default_batch_size [OF 1 3, of mysqlSyntax]
  have "generateInsertSQL ?cfg mysqlSyntax =
           Some (createTablePart ?cfg mysqlSyntax
                   @ concat (map (insertStatement ?cfg mysqlSyntax)
                               (consecutiveBatches 500 (dataRows ?cfg))),
                 length (dataRows ?cfg),
                 (length (dataRows ?cfg) + 499) div 500)"
    and "dataRows ?cfg \<noteq> [] \<and> length (dataRows ?cfg) \<le> 500 \<longrightarrow>
            consecutiveBatches 500 (dataRows ?cfg) = [dataRows ?cfg]"
    by blast+
  then have "generateInsertSQL ?cfg mysqlSyntax =
               Some (insertStatement ?cfg mysqlSyntax [obrien], 1, 1)"
    and "consecutiveBatches 500 [obrien] = [[obrien]]"
    by (simp_all add: usersConfig_fields createTablePart_def)
  with 1 2 show ?thesis by blast
qed

text \<open>
  C3 as stated fails: without a \<open>batchSize\<close>, 501 rows are emitted as two batches.
\<close>

theorem absent_batch_size_counterexample:
  "batchSize (options (usersConfig (replicate 501 obrien) JUndefined)) = JUndefined \<and>
   generateInsertSQL (usersConfig (replicate 501 obrien) JUndefined) mysqlSyntax =
     Some (concat (map (insertStatement (usersConfig (replicate 501 obrien) JUndefined)
                          mysqlSyntax)
                       (consecutiveBatches 500 (replicate 501 obrien))),
           501, 2) \<and>
   map length (consecutiveBatches 500 (replicate 501 obrien)) = [500, 1]"
proof -
  let ?cfg = "usersConfig (replicate 501 obrien) JUndefined"
  have e: "effectiveBatchSize (batchSize (options ?cfg)) = 500"
    by (simp add: usersConfig_fields effectiveBatchSize_default parseInt_undefined)
  have l: "length (consecutiveBatches 500 (replicate 501 obrien)) = 2"
    by (simp add: length_consecutiveBatches)
  have s: "map length (consecutiveBatches 500 (replicate 501 obrien)) = [500, 1]"
    by (simp add: sizes_consecutiveBatches)
  have "generateInsertSQL ?cfg mysqlSyntax =
     Some (createTablePart ?cfg mysqlSyntax
             @ concat (map (insertStatement ?cfg mysqlSyntax)
                 (consecutiveBatches (nat 500) (dataRows ?cfg))),
           length (dataRows ?cfg),
           length (consecutiveBatches (nat 500) (dataRows ?cfg)))"
    using generateInsertSQL_forward [of ?cfg mysqlSyntax] by (simp only: e)
  then show ?thesis
    using l s by (simp add: usersConfig_fields createTablePart_def)
qed

subsection \<open>Empty cells\<close>

lemma formatValue_empty:
  "v = JNull \<or> v = JUndefined \<or> v = JStr [] \<Longrightarrow> formatValue v mapping syn = str ''NULL''"
  by (auto simp: formatValue_def)

lemma getProp_own: "map_of r fld = Some v \<Longrightarrow> getProp r fld = v"
  by (simp add: getProp_def)

lemma getProp_missing:
  "map_of r fld = None \<Longrightarrow> map_of objectPrototype fld = None \<Longrightarrow> getProp r fld = JUndefined"
  by (simp add: getProp_def)

text \<open>
  C9. \<open>formatValue\<close> renders \<open>null\<close>, \<open>undefined\<close> and the empty string as \<open>NULL\<close>
  before it looks at the mapping, so for every type and either value of \<open>nullable\<close>;
  so it renders a cell of the row that holds one of them. The value row of a row is
  the list of the formatted cells of the mapped columns in parentheses: in it, the
  value of every column whose cell reads as one of the three is \<open>NULL\<close>, and a row of
  such cells is a list of \<open>NULL\<close>s. The INSERT statement of a batch is its head, the
  value rows of the batch and its tail, so the value row of every row of the batch,
  with its \<open>NULL\<close>s, is part of the statement.
\<close>

theorem empty_cell_is_NULL:
  "formatValue JNull mapping syn = str ''NULL'' \<and>
   formatValue JUndefined mapping syn = str ''NULL'' \<and>
   formatValue (JStr []) mapping syn = str ''NULL'' \<and>
   (map_of r fld = Some v \<and> v \<in> {JNull, JUndefined, JStr []} \<longrightarrow>
      formatValue (getProp r fld) mapping syn = str ''NULL'') \<and>
   (map_of r col = None \<and> map_of objectPrototype col = None \<longrightarrow>
      formatValue (getProp r col) mapping syn = str ''NULL'') \<and>
   valueRow mappings syn r =
     str ''  ('' @ join (str '', '') (map (\<lambda>(fld, m). formatValue (getProp r fld) m syn) mappings)
     @ str '')'' \<and>
   (i < length mappings \<and> getProp r (fst (mappings ! i)) \<in> {JNull, JUndefined, JStr []} \<longrightarrow>
      map (\<lambda>(fld, m). formatValue (getProp r fld) m syn) mappings ! i = str ''NULL'') \<and>
   ((\<forall>p \<in> set mappings. getProp r (fst p) \<in> {JNull, JUndefined, JStr []}) \<longrightarrow>
      valueRow mappings syn r =
        str ''  ('' @ join (str '', '') (replicate (length mappings) (str ''NULL'')) @ str '')'') \<and>
   insertStatement cfg syn batch =
     insertHead cfg syn
     @ join (str '','' @ nl) (map (valueRow (fieldMappings cfg) syn) batch)
     @ insertTail cfg syn \<and>
   (r \<in> set batch \<longrightarrow>
      sublist (valueRow (fieldMappings cfg) syn r) (insertStatement cfg syn batch))"
proof (intro conjI impI)
  assume "map_of r fld = Some v \<and> v \<in> {JNull, JUndefined, JStr []}"
  then show "formatValue (getProp r fld) mapping syn = str ''NULL''"
    by (auto simp: getProp_own formatValue_empty)
next
  assume "map_of r col = None \<and> map_of objectPrototype col = None"
  then show "formatValue (getProp r col) mapping syn = str ''NULL''"
    by (simp add: getProp_missing formatValue_empty)
next
  assume "i < length mappings \<and> getProp r (fst (mappings ! i)) \<in> {JNull, JUndefined, JStr []}"
  then show "map (\<lambda>(fld, m). formatValue (getProp r fld) m syn) mappings ! i = str ''NULL''"
    by (auto simp: case_prod_beta formatValue_empty)
next
  assume a: "\<forall>p \<in> set mappings. getProp r (fst p) \<in> {JNull, JUndefined, JStr []}"
  have "map (\<lambda>(fld, m). formatValue (getProp r fld) m syn) mappings =
        replicate (length mappings) (str ''NULL'')"
    using a by (induction mappings) (auto simp: formatValue_empty)
  then show "valueRow mappings syn r =
        str ''  ('' @ join (str '', '') (replicate (length mappings) (str ''NULL'')) @ str '')''"
    by (simp add: valueRow_def)
next
  assume "r \<in> set batch"
  then show "sublist (valueRow (fieldMappings cfg) syn r) (insertStatement cfg syn batch)"
    by (rule valueRow_in_statement)
qed (simp_all add: formatValue_empty valueRow_def insertStatement_def)

lemma seven_values:
  "valueRow usersMappings mysqlSyntax (userRow (JNum 7) (JStr (str ''Ann''))) = userLine ''7'' ''Ann''"
  by (simp add: userRow_def valueRow_def usersMappings_def getProp_def
      formatValue_def mysqlSyntax_def showInt_def showNat_digit digitChar_def doubleQuotes_def
      trim_def isWhiteSpace_def userLine_def str_def Let_def)

text \<open>
  A row whose \<open>id\<close> cell is the empty string and which has no \<open>name\<close> cell, against
  the mappings of the table \<open>users\<close>, whose \<open>id\<close> column is not nullable, in a batch
  after the row \<open>{id: 7, name: "Ann"}\<close>.
\<close>

theorem empty_cell_is_NULL_witness:
  "map_of [(str ''id'', JStr [])] (str ''id'') = Some (JStr []) \<and>
   (1::nat) < length usersMappings \<and>
   map (\<lambda>p. getProp [(str ''id'', JStr [])] (fst p)) usersMappings = [JStr [], JUndefined] \<and>
   formatValue (getProp [(str ''id'', JStr [])] (str ''id'')) (snd (usersMappings ! 0)) mysqlSyntax
     = str ''NULL'' \<and>
   map_of [(str ''id'', JStr [])] (str ''name'') = None \<and>
   map_of objectPrototype (str ''name'') = None \<and>
   formatValue (getProp [(str ''id'', JStr [])] (str ''name'')) (snd (usersMappings ! 0))
     mysqlSyntax = str ''NULL'' \<and>
   map (\<lambda>(fld, m). formatValue (getProp [(str ''id'', JStr [])] fld) m mysqlSyntax)
     usersMappings ! 1 = str ''NULL'' \<and>
   valueRow usersMappings mysqlSyntax [(str ''id'', JStr [])] = str ''  (NULL, NULL)'' \<and>
   insertStatement (usersConfig [] JUndefined) mysqlSyntax
       [userRow (JNum 7) (JStr (str ''Ann'')), [(str ''id'', JStr [])]]
     = usersHead @ userLine ''7'' ''Ann'' @ str '','' @ nl @ str ''  (NULL, NULL)''
       @ str '';'' @ nl @ nl \<and>
   sublist (str ''  (NULL, NULL)'')
     (insertStatement (usersConfig [] JUndefined) mysqlSyntax
        [userRow (JNum 7) (JStr (str ''Ann'')), [(str ''id'', JStr [])]])"
proof -
  let ?r = "[(str ''id'', JStr [])] :: row"
  let ?cfg = "usersConfig [] JUndefined"
  let ?batch = "[userRow (JNum 7) (JStr (str ''Ann'')), ?r]"
  have 0: "map_of ?r (str ''id'') = Some (JStr [])" by simp
  have 1: "(1::nat) < length usersMappings" by (simp add: usersMappings_def)
  have g: "map (\<lambda>p. getProp ?r (fst p)) usersMappings = [JStr [], JUndefined]"
    by (simp add: usersMappings_def getProp_def objectPrototype_def str_def)
  have 2: "getProp ?r (fst (usersMappings ! 1)) \<in> {JNull, JUndefined, JStr []}"
    by (simp add: usersMappings_def getProp_def objectPrototype_def str_def)
  have 3: "\<forall>p \<in> set usersMappings. getProp ?r (fst p) \<in> {JNull, JUndefined, JStr []}"
    by (simp add: usersMappings_def getProp_def objectPrototype_def str_def)
  have 4: "?r \<in> set ?batch" by simp
  have 5: "map_of ?r (str ''name'') = None" "map_of objectPrototype (str ''name'') = None"
    by (simp_all add: objectPrototype_def str_def)
  have f: "fieldMappings ?cfg = usersMappings" by (simp add: usersConfig_fields)
  from empty_cell_is_NULL [of "snd (usersMappings ! 0)" mysqlSyntax ?r "str ''id''" "JStr []"
      "str ''name''" usersMappings 1 ?cfg ?batch] 0 1 2 3 4 5
  have a: "formatValue (getProp ?r (str ''id'')) (snd (usersMappings ! 0)) mysqlSyntax = str ''NULL''"
    and a': "formatValue (getProp ?r (str ''name'')) (snd (usersMappings ! 0)) mysqlSyntax
               = str ''NULL''"
    and b: "map (\<lambda>(fld, m). formatValue (getProp ?r fld) m mysqlSyntax) usersMappings ! 1
          = str ''NULL''"
    and c: "valueRow usersMappings mysqlSyntax ?r =
        str ''  ('' @ join (str '', '') (replicate (length usersMappings) (str ''NULL''))
          @ str '')''"
    and d: "insertStatement ?cfg mysqlSyntax ?batch =
       insertHead ?cfg mysqlSyntax
       @ join (str '','' @ nl) (map (valueRow (fieldMappings ?cfg) mysqlSyntax) ?batch)
       @ insertTail ?cfg mysqlSyntax"
    and e: "sublist (valueRow (fieldMappings ?cfg) mysqlSyntax ?r)
              (insertStatement ?cfg mysqlSyntax ?batch)"
    by blast+
  have "str ''  ('' @ join (str '', '') (replicate (length usersMappings) (str ''NULL''))
          @ str '')'' = str ''  (NULL, NULL)''"
    by (simp add: usersMappings_def str_def numeral_2_eq_2)
  with c have c': "valueRow usersMappings mysqlSyntax ?r = str ''  (NULL, NULL)''" by simp
  have d': "insertStatement ?cfg mysqlSyntax ?batch
     = usersHead @ userLine ''7'' ''Ann'' @ str '','' @ nl @ str ''  (NULL, NULL)''
       @ str '';'' @ nl @ nl"
    unfolding d by (simp add: f c' seven_values users_head users_tail)
  have e': "sublist (str ''  (NULL, NULL)'') (insertStatement ?cfg mysqlSyntax ?batch)"
    using e by (simp only: f c')
  from 0 1 g a 5 a' b c' d' e' show ?thesis by blast
qed

text \<open>
  A column that the row does not hold is read through the prototype: under the name
  of a method of every object, the value is that function and its text is printed.
\<close>

lemma inherited_cell:
  "getProp [] (str ''toString'') = nativeFunction ''toString'' \<and>
   valueRow [(str ''toString'', snd (usersMappings ! 1))] mysqlSyntax [] =
     str ''  ('' @ [0x27] @ str ''function toString() { [native code] }'' @ [0x27] @ str '')''"
  by (simp add: getProp_def objectPrototype_def valueRow_def usersMappings_def formatValue_def
      nativeFunction_def mysqlSyntax_def doubleQuotes_def trim_def isWhiteSpace_def str_def Let_def)

subsection \<open>The end-to-end example\<close>

lemma showNat_1: "showNat 1 = str ''1''"
  by (subst showNat.simps) (simp add: digitChar_def str_def)

lemma showNat_Suc_0: "showNat (Suc 0) = str ''1''"
  using showNat_1 by simp

lemma count_doubleQuotes: "count_list (doubleQuotes s) 0x27 = 2 * count_list s 0x27"
  by (induction s) (simp_all add: doubleQuotes_def)

lemma even_quotes_formatValue:
  assumes "stringQuote syn = [0x27]"
    and "mappingJsType m \<notin> {str ''integer'', str ''decimal'', str ''boolean''}"
  shows "even (count_list (formatValue v m syn) 0x27)"
  using assms
  by (auto simp: formatValue_def Let_def count_doubleQuotes str_def)

lemma undefined_batch: "effectiveBatchSize JUndefined = 500"
  by (simp add: effectiveBatchSize_def parseInt_def Let_def str_def isWhiteSpace_def isDigit_def
      stripSign_def defaultBatchSize_def)

lemma obrien_values:
  "valueRow usersMappings mysqlSyntax obrien =
     str ''  (1, '' @ [0x27] @ str ''O'' @ [0x27, 0x27] @ str ''Brien'' @ [0x27] @ str '')''"
  by (simp add: valueRow_def usersMappings_def obrien_def getProp_def formatValue_def
      mysqlSyntax_def showInt_def showNat_Suc_0 doubleQuotes_def trim_def isWhiteSpace_def str_def
      Let_def)

lemma obrien_statement:
  "insertStatement (usersConfig rs v) mysqlSyntax [obrien] =
     str ''INSERT INTO '' @ [0x60] @ str ''users'' @ [0x60] @ nl
     @ str ''  ('' @ [0x60] @ str ''id'' @ [0x60] @ str '', '' @ [0x60] @ str ''name'' @ [0x60]
     @ str '')'' @ nl @ str ''VALUES'' @ nl
     @ (str ''  (1, '' @ [0x27] @ str ''O'' @ [0x27, 0x27] @ str ''Brien'' @ [0x27] @ str '')'')
     @ str '';'' @ nl @ nl"
  by (simp add: insertStatement_def insertHead_def insertTail_def usersConfig_fields
      obrien_values Let_def)
     (simp add: usersMappings_def mysqlSyntax_def quoteIdentifier_def str_def)

lemma single_batch: "consecutiveBatches 500 [r] = [[r]]"
  by (simp add: consecutiveBatches_step)

text \<open>
  C8. For the row \<open>{id: 1, name: "O'Brien"}\<close>, MySQL, INSERT and the table \<open>users\<close>,
  at any time of the clock, \<open>generateSQL\<close> returns a script that contains
  \<open>INSERT INTO `users`\<close> and \<open>(1, 'O''Brien')\<close>. The name is formatted with its
  quote doubled, and the script adds an even number of single quotes to those of the
  two timestamps.
\<close>

theorem obrien_insert:
  "\<exists>res. generateSQL generated completed (usersConfig [obrien] JUndefined) = Some (Inr res) \<and>
     success res \<and> recordCount (sqlMetadata res) = 1 \<and> batchCount (sqlMetadata res) = 1 \<and>
     sublist (str ''INSERT INTO '' @ [0x60] @ str ''users'' @ [0x60]) (sql res) \<and>
     sublist (str ''(1, '' @ [0x27] @ str ''O'' @ [0x27, 0x27] @ str ''Brien'' @ [0x27] @ str '')'')
       (sql res) \<and>
     formatValue (JStr (str ''O'' @ [0x27] @ str ''Brien'')) (snd (usersMappings ! 1)) mysqlSyntax
       = [0x27] @ str ''O'' @ [0x27, 0x27] @ str ''Brien'' @ [0x27] \<and>
     even (count_list (sql res) 0x27) = even (count_list (generated @ completed) 0x27)"
proof -
  let ?cfg = "usersConfig [obrien] JUndefined"
  let ?stmt = "insertStatement ?cfg mysqlSyntax [obrien]"
  let ?script = "generateHeader ?cfg generated @ getTransactionStart (databaseType ?cfg)"
  let ?res = "finish ?cfg generated completed (?stmt, 1, 1)"
  have e: "effectiveBatchSize (batchSize (options ?cfg)) = 500"
    by (simp add: usersConfig_fields undefined_batch)
  have "generateInsertSQL ?cfg mysqlSyntax =
     Some (createTablePart ?cfg mysqlSyntax
             @ concat (map (insertStatement ?cfg mysqlSyntax)
                 (consecutiveBatches (nat 500) (dataRows ?cfg))),
           length (dataRows ?cfg),
           length (consecutiveBatches (nat 500) (dataRows ?cfg)))"
    using generateInsertSQL_forward [of ?cfg mysqlSyntax] by (simp only: e)
  then have ins: "generateInsertSQL ?cfg mysqlSyntax = Some (?stmt, 1, 1)"
    by (simp add: usersConfig_fields createTablePart_def single_batch)
  have gen: "generateSQL generated completed ?cfg = Some (Inr ?res)"
    by (simp add: generateSQL_def usersConfig_valid usersConfig_syntax ins Let_def)
       (simp add: usersConfig_fields)
  have s: "sql ?res = ?script @ ?stmt @ getTransactionEnd (databaseType ?cfg)
                      @ generateFooter 1 1 completed"
    by (simp add: finish_def scriptStart_def scriptEnd_def usersConfig_fields Let_def)
  let ?into = "str ''INSERT INTO '' @ [0x60] @ str ''users'' @ [0x60]"
  let ?vals = "str ''(1, '' @ [0x27] @ str ''O'' @ [0x27, 0x27] @ str ''Brien'' @ [0x27] @ str '')''"
  let ?mid = "nl @ str ''  ('' @ [0x60] @ str ''id'' @ [0x60] @ str '', '' @ [0x60] @ str ''name''
              @ [0x60] @ str '')'' @ nl @ str ''VALUES'' @ nl @ str ''  ''"
  let ?tail = "str '';'' @ nl @ nl @ getTransactionEnd (databaseType ?cfg)
              @ generateFooter 1 1 completed"
  have sp: "str ''  (1, '' = str ''  '' @ str ''(1, ''" by (simp add: str_def)
  have s1: "sql ?res = ?script @ ?into @ (?mid @ ?vals @ ?tail)"
    using s by (simp add: obrien_statement sp)
  have s2: "sql ?res = (?script @ ?into @ ?mid) @ ?vals @ ?tail"
    unfolding s1 by simp
  have i: "sublist ?into (sql ?res)" unfolding s1 by (rule sublist_appendI)
  have v: "sublist ?vals (sql ?res)" unfolding s2 by (rule sublist_appendI)
  have f: "formatValue (JStr (str ''O'' @ [0x27] @ str ''Brien'')) (snd (usersMappings ! 1))
             mysqlSyntax = [0x27] @ str ''O'' @ [0x27, 0x27] @ str ''Brien'' @ [0x27]"
    by (simp add: usersMappings_def formatValue_def mysqlSyntax_def doubleQuotes_def trim_def
        isWhiteSpace_def str_def Let_def)
  have q: "even (count_list (sql ?res) 0x27) = even (count_list (generated @ completed) 0x27)"
  proof -
    have "count_list (sql ?res) 0x27 = count_list (generated @ completed) 0x27 + 4"
      unfolding s
      by (simp add: obrien_statement generateHeader_def generateFooter_def
          getTransactionStart_def getTransactionEnd_def commentRule_def usersConfig_fields
          lower_mysql showNat_Suc_0 nl_def)
         (simp add: str_def)
    then show ?thesis by simp
  qed
  have m: "success ?res" "recordCount (sqlMetadata ?res) = 1" "batchCount (sqlMetadata ?res) = 1"
    by (simp_all add: finish_def Let_def)
  show ?thesis
    by (intro exI [of _ ?res] conjI) (fact gen m i v f q)+
qed

theorem obrien_insert_witness:
  "\<exists>res. generateSQL (str ''2024-05-01T10:00:00.000Z'') (str ''2024-05-01T10:00:00.001Z'')
            (usersConfig [obrien] JUndefined) = Some (Inr res) \<and>
     sublist (str ''INSERT INTO '' @ [0x60] @ str ''users'' @ [0x60]) (sql res) \<and>
     sublist (str ''(1, '' @ [0x27] @ str ''O'' @ [0x27, 0x27] @ str ''Brien'' @ [0x27] @ str '')'')
       (sql res) \<and>
     even (count_list (sql res) 0x27)"
proof -
  have "even (count_list (str ''2024-05-01T10:00:00.000Z'' @ str ''2024-05-01T10:00:00.001Z'')
          (0x27 :: jschar))"
    by (simp add: str_def)
  with obrien_insert [of "str ''2024-05-01T10:00:00.000Z''" "str ''2024-05-01T10:00:00.001Z''"]
  show ?thesis by blast
qed

subsection \<open>The batch loop with a negative step\<close>

text \<open>
  With a negative step the index moves away from the length: the loop does not end.
\<close>

lemma batchLoop_backward:
  assumes "batchLoop render rs step i st = Some y"
  shows "\<not> (step < 0 \<and> i \<le> 0 \<and> rs \<noteq> [])"
proof (rule batchLoop.raw_induct
         [where P = "\<lambda>render rs step i st y. \<not> (step < 0 \<and> i \<le> 0 \<and> rs \<noteq> [])", OF _ assms])
  fix loop :: "(row list \<Rightarrow> jsstring) \<Rightarrow> row list \<Rightarrow> int \<Rightarrow> int \<Rightarrow> jsstring \<times> nat \<times> nat
               \<Rightarrow> (jsstring \<times> nat \<times> nat) option"
    and render rs step i st y
  assume ih: "\<And>render rs step i st y. loop render rs step i st = Some y \<Longrightarrow>
                \<not> (step < 0 \<and> i \<le> 0 \<and> rs \<noteq> [])"
    and body: "(if i < int (length rs)
      then let batch = sliceArray rs i (i + step)
           in if batch = [] then loop render rs step (i + step) st
              else case st of
                   (sqlText, records, batches) \<Rightarrow>
                     loop render rs step (i + step)
                      (sqlText @ render batch, records + length batch, batches + 1)
      else Some st) = Some y"
  show "\<not> (step < 0 \<and> i \<le> 0 \<and> rs \<noteq> [])"
  proof
    assume a: "step < 0 \<and> i \<le> 0 \<and> rs \<noteq> []"
    then have lt: "i < int (length rs)" by (cases rs) auto
    from a have n: "i + step \<le> 0" by simp
    from body lt obtain st' where "loop render rs step (i + step) st' = Some y"
      by (auto simp: Let_def split: if_splits prod.splits)
    from ih [OF this] a n show False by simp
  qed
qed

lemma negative_batch_size_diverges:
  "step < 0 \<Longrightarrow> rs \<noteq> [] \<Longrightarrow> batchLoop render rs step 0 st = None"
  using batchLoop_backward [of render rs step 0 st] by (cases "batchLoop render rs step 0 st") auto

subsection \<open>UPDATE rows without a clause\<close>

lemma endsWith_suffix: "endsWith s suf \<longleftrightarrow> suffix suf s"
proof
  assume "endsWith s suf"
  then have "s = take (length s - length suf) s @ suf"
    by (metis append_take_drop_id endsWith_def)
  then show "suffix suf s" by (metis suffixI)
next
  assume "suffix suf s"
  then obtain pre where "s = pre @ suf" by (auto simp: suffix_def)
  then show "endsWith s suf" by (simp add: endsWith_def)
qed

lemma markers_differ: "endsWith key (str ''[WHERE]'') \<Longrightarrow> \<not> endsWith key (str ''[SET]'')"
proof
  assume "endsWith key (str ''[WHERE]'')" and "endsWith key (str ''[SET]'')"
  then have "suffix (str ''[WHERE]'') (str ''[SET]'') \<or> suffix (str ''[SET]'') (str ''[WHERE]'')"
    unfolding endsWith_suffix by (rule suffix_same_cases)
  then show False by (simp add: suffix_to_prefix str_def)
qed

lemma clauseStep_lengths:
  "length (fst (fold (clauseStep r syn) keys st)) =
     length (fst st)
     + length (filter (\<lambda>key. endsWith key (str ''[WHERE]'') \<and> presentValue (getProp r key)) keys)"
  "length (snd (fold (clauseStep r syn) keys st)) =
     length (snd st)
     + length (filter (\<lambda>key. endsWith key (str ''[SET]'') \<and> presentValue (getProp r key)) keys)"
  by (induction keys arbitrary: st; auto simp: clauseStep_def dest: markers_differ)+

lemma rowClauses_lengths:
  "length (fst (rowClauses r syn)) = length (whereMarked r)"
  "length (snd (rowClauses r syn)) = length (setMarked r)"
  by (simp_all add: rowClauses_def whereMarked_def setMarked_def clauseStep_lengths)

lemma rowClauses_empty:
  "fst (rowClauses r syn) = [] \<longleftrightarrow> whereMarked r = []"
  "snd (rowClauses r syn) = [] \<longleftrightarrow> setMarked r = []"
  using rowClauses_lengths [of r syn] by (metis length_0_conv)+

lemma updateLoop_bad_row:
  assumes "r \<in> set rs" and "whereMarked r = [] \<or> setMarked r = []"
  shows "\<exists>m. updateLoop tbl syn rs st = Inl (Error m) \<and>
             prefix (str ''UPDATE mode requires at least one '') m"
  using assms(1)
proof (induction rs arbitrary: st)
  case Nil
  then show ?case by simp
next
  case (Cons x rs)
  have p1: "prefix (str ''UPDATE mode requires at least one '')
      (str (''UPDATE mode requires at least one WHERE condition field ''
            @ ''(column name with [WHERE] suffix)''))"
    by (simp add: str_def)
  have p2: "prefix (str ''UPDATE mode requires at least one '')
      (str (''UPDATE mode requires at least one SET field ''
            @ ''(column name with [SET] suffix)''))"
    by (simp add: str_def)
  show ?case
  proof (cases "fst (rowClauses x syn) = [] \<or> snd (rowClauses x syn) = []")
    case True
    then show ?thesis using p1 p2 by (auto simp: Let_def)
  next
    case False
    with assms(2) have "x \<noteq> r" by (auto simp: rowClauses_empty)
    with Cons.prems have "r \<in> set rs" by simp
    from Cons.IH [OF this] False show ?thesis by (simp add: Let_def)
  qed
qed

text \<open>
  C1. When the operation is UPDATE and some row has no column marked \<open>[WHERE]\<close> with
  a value, or none marked \<open>[SET]\<close> with a value, \<open>generateSQL\<close> ends in an error,
  which carries a message and no SQL text: the statements built for earlier rows are
  in the loop's state, which the \<open>throw\<close> drops. For a valid configuration the
  message is that of the generation error.
\<close>

theorem update_without_clause_fails:
  assumes "operation cfg = str ''UPDATE''" and "r \<in> set (dataRows cfg)"
    and "whereMarked r = [] \<or> setMarked r = []"
  shows "\<exists>m. generateSQL generated completed cfg = Some (Inl (Error m)) \<and>
             (validateConfig cfg = None \<longrightarrow>
                prefix (str ''SQL generation failed: UPDATE mode requires at least one '') m)"
proof (cases "validateConfig cfg")
  case (Some e)
  then show ?thesis by (cases e) (simp add: generateSQL_def)
next
  case None
  from valid_dialect [OF None] obtain syn where
    syn: "map_of syntaxMap (toLowerCase (databaseType cfg)) = Some syn" by blast
  from updateLoop_bad_row [OF assms(2,3), of "tableName cfg" syn "([], 0)"]
  obtain m where m: "updateLoop (tableName cfg) syn (dataRows cfg) ([], 0) = Inl (Error m)"
    and p: "prefix (str ''UPDATE mode requires at least one '') m" by blast
  have ne: "str ''UPDATE'' \<noteq> str ''INSERT''" by (simp add: str_def)
  have "generateSQL generated completed cfg =
          Some (Inl (Error (str ''SQL generation failed: '' @ m)))"
    using None syn m assms(1) ne by (simp add: generateSQL_def generateUpdateSQL_def Let_def)
  moreover have "prefix (str ''SQL generation failed: UPDATE mode requires at least one '')
                   (str ''SQL generation failed: '' @ m)"
  proof -
    have "str ''SQL generation failed: UPDATE mode requires at least one '' =
          str ''SQL generation failed: '' @ str ''UPDATE mode requires at least one ''"
      by (simp add: str_def)
    with p show ?thesis by simp
  qed
  ultimately show ?thesis by blast
qed

text \<open>
  Two rows of an UPDATE template; the second has an empty \<open>id[WHERE]\<close> cell.
\<close>

theorem update_without_clause_fails_witness:
  "operation ((usersConfig [updateRow (JStr (str ''1'')) (JStr (str ''Ann'')),
                            updateRow (JStr []) (JStr (str ''Bob''))] JUndefined)
                \<lparr>operation := str ''UPDATE''\<rparr>) = str ''UPDATE'' \<and>
   whereMarked (updateRow (JStr []) (JStr (str ''Bob''))) = [] \<and>
   whereMarked (updateRow (JStr (str ''1'')) (JStr (str ''Ann''))) = [str ''id[WHERE]''] \<and>
   setMarked (updateRow (JStr (str ''1'')) (JStr (str ''Ann''))) = [str ''name[SET]''] \<and>
   (\<exists>m. generateSQL (str ''2024-05-01T10:00:00.000Z'') (str ''2024-05-01T10:00:00.001Z'')
          ((usersConfig [updateRow (JStr (str ''1'')) (JStr (str ''Ann'')),
                         updateRow (JStr []) (JStr (str ''Bob''))] JUndefined)
             \<lparr>operation := str ''UPDATE''\<rparr>) = Some (Inl (Error m)) \<and>
        prefix (str ''SQL generation failed: UPDATE mode requires at least one '') m)"
proof -
  let ?good = "updateRow (JStr (str ''1'')) (JStr (str ''Ann''))"
  let ?bad = "updateRow (JStr []) (JStr (str ''Bob''))"
  let ?cfg = "(usersConfig [?good, ?bad] JUndefined)\<lparr>operation := str ''UPDATE''\<rparr>"
  have 1: "operation ?cfg = str ''UPDATE''" by simp
  have 2: "?bad \<in> set (dataRows ?cfg)" by (simp add: usersConfig_def)
  have 3: "whereMarked ?bad = []"
    by (simp add: whereMarked_def updateRow_def endsWith_def presentValue_def getProp_def str_def)
  have 4: "whereMarked ?good = [str ''id[WHERE]'']"
    by (simp add: whereMarked_def updateRow_def endsWith_def presentValue_def getProp_def str_def)
  have 5: "setMarked ?good = [str ''name[SET]'']"
    by (simp add: setMarked_def updateRow_def endsWith_def presentValue_def getProp_def str_def)
  have v: "validateConfig ?cfg = None"
    by (simp add: validateConfig_def usersConfig_def lower_mysql supportedDatabases_def)
       (simp add: toUpperCase_def upperCaseUnit_def str_def)
  from 3 have 6: "whereMarked ?bad = [] \<or> setMarked ?bad = []" by simp
  from update_without_clause_fails [OF 1 2 6, of "str ''2024-05-01T10:00:00.000Z''"
      "str ''2024-05-01T10:00:00.001Z''"] v 1 3 4 5
  show ?thesis by blast
qed

section \<open>Properties of the UpdateOperationHandler\<close>

lemma indexed_snd: "p \<in> set (indexed xs) \<Longrightarrow> snd p \<in> set xs"
  by (cases p) (auto simp: indexed_def dest: set_zip_rightD)

lemma validate_without_where:
  assumes "whereConditions h = []"
  shows "\<not> fst (validate h)" and "missingWhereMessage \<in> set (validationErrors (snd (validate h)))"
  using assms by (simp_all add: validate_def Let_def)

lemma validate_only_where:
  assumes "whereConditions h = []" and "handlerTable h \<noteq> []" and "setFields h \<noteq> []"
    and "\<forall>f \<in> set (setFields h). setName f \<noteq> [] \<and> setValue f \<noteq> JUndefined"
  shows "validationErrors (snd (validate h)) = [missingWhereMessage]"
proof -
  have "concat (map setFieldErrors (indexed (setFields h))) = []"
    using assms(4) by (auto simp: setFieldErrors_def dest: indexed_snd)
  with assms(1-3) show ?thesis by (simp add: validate_def Let_def indexed_def)
qed

text \<open>
  C4 (as amended). In a handler with no WHERE condition, \<open>validate\<close> records the
  missing WHERE conditions among the validation errors and returns false, and
  \<open>generateSQL\<close> of the handler throws the validation error instead of rendering a
  statement. When the handler has a table name and SET fields with names and values,
  that is the only error.
\<close>

theorem handler_requires_where:
  assumes "whereConditions h = []"
  shows "\<not> fst (validate h) \<and>
         missingWhereMessage \<in> set (validationErrors (snd (validate h))) \<and>
         fst (handlerGenerateSQL h) =
           Inl (Error (str ''Validation failed: ''
                       @ join (str '', '') (validationErrors (snd (validate h))))) \<and>
         (handlerTable h \<noteq> [] \<and> setFields h \<noteq> [] \<and>
          (\<forall>f \<in> set (setFields h). setName f \<noteq> [] \<and> setValue f \<noteq> JUndefined) \<longrightarrow>
            fst (handlerGenerateSQL h) =
              Inl (Error (str ''Validation failed: '' @ missingWhereMessage)))"
proof (intro conjI impI)
  show "\<not> fst (validate h)" using assms by (rule validate_without_where)
  show "missingWhereMessage \<in> set (validationErrors (snd (validate h)))"
    using assms by (rule validate_without_where)
  show g: "fst (handlerGenerateSQL h) =
           Inl (Error (str ''Validation failed: ''
                       @ join (str '', '') (validationErrors (snd (validate h)))))"
    using validate_without_where(1) [OF assms] by (simp add: handlerGenerateSQL_def Let_def)
  assume "handlerTable h \<noteq> [] \<and> setFields h \<noteq> [] \<and>
          (\<forall>f \<in> set (setFields h). setName f \<noteq> [] \<and> setValue f \<noteq> JUndefined)"
  then have "validationErrors (snd (validate h)) = [missingWhereMessage]"
    using assms by (intro validate_only_where) simp_all
  with g show "fst (handlerGenerateSQL h) =
              Inl (Error (str ''Validation failed: '' @ missingWhereMessage))"
    by simp
qed

theorem handler_requires_where_witness:
  "whereConditions (renameHandler\<lparr>handlerTable := str ''people''\<rparr>) = [] \<and>
   handlerTable (renameHandler\<lparr>handlerTable := str ''people''\<rparr>) \<noteq> [] \<and>
   setFields (renameHandler\<lparr>handlerTable := str ''people''\<rparr>) \<noteq> [] \<and>
   map setName (setFields (renameHandler\<lparr>handlerTable := str ''people''\<rparr>))
     = [str ''name''] \<and>
   map setValue (setFields (renameHandler\<lparr>handlerTable := str ''people''\<rparr>))
     = [JStr (str ''Ann'')] \<and>
   \<not> fst (validate (renameHandler\<lparr>handlerTable := str ''people''\<rparr>)) \<and>
   fst (handlerGenerateSQL (renameHandler\<lparr>handlerTable := str ''people''\<rparr>)) =
     Inl (Error (str ''Validation failed: '' @ missingWhereMessage))"
proof -
  let ?h = "renameHandler\<lparr>handlerTable := str ''people''\<rparr>"
  have 1: "whereConditions ?h = []" by (simp add: renameHandler_def)
  have 2: "handlerTable ?h \<noteq> []" by simp
  have 3: "setFields ?h \<noteq> []" by (simp add: renameHandler_def)
  have 4: "\<forall>f \<in> set (setFields ?h). setName f \<noteq> [] \<and> setValue f \<noteq> JUndefined"
    by (simp add: renameHandler_def)
  have 5: "map setName (setFields ?h) = [str ''name'']"
    "map setValue (setFields ?h) = [JStr (str ''Ann'')]"
    by (simp_all add: renameHandler_def)
  from handler_requires_where [OF 1] 1 2 3 4 5 show ?thesis by blast
qed

text \<open>
  C4 as stated fails: with the table \<open>users\<close>, one SET field and no WHERE condition,
  validation does not succeed and no statement is rendered.
\<close>

theorem handler_missing_where_counterexample:
  "handlerTable renameHandler = str ''users'' \<and> length (setFields renameHandler) = 1 \<and>
   whereConditions renameHandler = [] \<and>
   fst (validate renameHandler) = False \<and>
   validationErrors (snd (validate renameHandler)) = [missingWhereMessage] \<and>
   fst (handlerGenerateSQL renameHandler) =
     Inl (Error (str ''Validation failed: '' @ missingWhereMessage))"
  by (simp add: renameHandler_def validate_def handlerGenerateSQL_def Let_def indexed_def
      setFieldErrors_def)

end
